theory Spec2Isabelle
  imports Complex_Main "HOL-Library.Word"
begin

section \<open>BeyondLink: laser point pipeline and packet decoding\<close>

text \<open>
  A shallow embedding of \<^verbatim>\<open>Source/LaserSource.cpp\<close> and of the packet path of
  \<^verbatim>\<open>Source/LaserProtocol.cpp\<close>.

  Numbers. The program's \<^verbatim>\<open>float\<close> fields are modelled by \<^typ>\<open>real\<close>: finite values,
  no rounding, no NaN and no infinity. Where the program divides by zero and goes on with
  the IEEE result, that branch is written out by hand when a real number can stand for
  what follows, and the text says so when none can. The constants the statements below
  depend on (0, 1, 255, 0.5, ratios \<open>j / (n - 1)\<close> compared with each
  other and with 0.0001) keep their order under rounding to the nearest float.
  \<^verbatim>\<open>int\<close> values are modelled by \<^typ>\<open>int\<close> and \<^verbatim>\<open>size_t\<close> indices by \<^typ>\<open>nat\<close>;
  vectors are far shorter than either type's range, so no wrap-around is written out.
\<close>

subsection \<open>Data model\<close>

text \<open>
  \<^verbatim>\<open>LaserPoint.h\<close> and \<^verbatim>\<open>LaserSettings.h\<close> are not part of the source tree at hand. The
  fields are the ones the code reads and writes; the vertex layout comment of the renderer
  names them \<^verbatim>\<open>X,Y,R,G,B,Z,Focus\<close>.
\<close>

record LaserPoint =
  X :: real
  Y :: real
  R :: real
  G :: real
  B :: real
  Z :: real
  Focus :: real

datatype QualityLevel = Low | Medium | High | Ultra

record LaserSettings =
  MaxLaserDevices :: int
  ScannerSimulation :: bool
  LaserQuality :: QualityLevel
  SampleCount :: int
  VelocitySmoothing :: real
  EdgeFade :: real
  BeamRepeatThreshold :: int
  BeamIntensityCount :: int
  EnableBeamBrush :: bool

text \<open>
  The two member predicates \<^verbatim>\<open>LaserPoint::IsSamePosition\<close> and
  \<^verbatim>\<open>LaserPoint::IsBlankPoint\<close> live in the absent header. Every function below that
  calls them takes them as the parameters \<open>same\<close> and \<open>blank\<close>, so each theorem holds for
  whatever the header implements. The next two definitions are only the instances used to
  run the functions on concrete lists.
\<close>

definition IsSamePosition :: "LaserPoint \<Rightarrow> LaserPoint \<Rightarrow> bool" where
  \<comment> \<open>Modelled from the spec: \<^verbatim>\<open>IsSamePosition\<close> (LaserPoint.h is missing); the spec
      speaks of points that are "position-equal".\<close>
  "IsSamePosition p q \<longleftrightarrow> X p = X q \<and> Y p = Y q"

definition IsBlankPoint :: "LaserPoint \<Rightarrow> bool" where
  \<comment> \<open>Modelled from the spec: \<^verbatim>\<open>IsBlankPoint\<close> (LaserPoint.h is missing); a blank point
      is one that carries no colour.\<close>
  "IsBlankPoint p \<longleftrightarrow> R p = 0 \<and> G p = 0 \<and> B p = 0"

subsection \<open>LaserSource: hot-beam detection\<close>

text \<open>
  The marker of the \<open>j\<close>-th synthetic point:
  \<^verbatim>\<open>(std::max)(0.0001f, float(j) / float(BeamIntensityCount - 1))\<close>.
  With \<^verbatim>\<open>BeamIntensityCount = 1\<close> the quotient is \<^verbatim>\<open>0.0f / 0.0f\<close>, a NaN, and
  \<^verbatim>\<open>std::max(a, b)\<close>, which is \<^verbatim>\<open>(a < b) ? b : a\<close>, returns its first argument.
\<close>

definition hot_level :: "int \<Rightarrow> int \<Rightarrow> real" where
  "hot_level n j =
     (if n - 1 = 0 then 1 / 10000
      else max (1 / 10000) (real_of_int j / real_of_int (n - 1)))"

text \<open>The inner loop \<^verbatim>\<open>for (int j = 0; j < BeamIntensityCount; ++j)\<close>.\<close>

definition hot_points :: "int \<Rightarrow> LaserPoint \<Rightarrow> LaserPoint list" where
  "hot_points n beamPoint = map (\<lambda>j. beamPoint\<lparr>Z := hot_level n j\<rparr>) [0..n - 1]"

text \<open>
  The outer loop \<^verbatim>\<open>for (size_t i = 1; i < points.size(); ++i)\<close>. Its state is
  \<^verbatim>\<open>consecutiveCount\<close>, \<^verbatim>\<open>beamIndices\<close> and \<^verbatim>\<open>m_HotBeamPoints\<close>. The result is \<open>None\<close>
  when the program calls \<^verbatim>\<open>beamIndices.back()\<close> on an empty vector, which C++ leaves
  undefined.
\<close>

function hb_loop ::
  "(LaserPoint \<Rightarrow> LaserPoint \<Rightarrow> bool) \<Rightarrow> (LaserPoint \<Rightarrow> bool) \<Rightarrow> LaserSettings \<Rightarrow>
   LaserPoint list \<Rightarrow> nat \<Rightarrow> int \<Rightarrow> nat list \<Rightarrow> LaserPoint list \<Rightarrow> LaserPoint list option"
where
  "hb_loop same blank st points i consecutiveCount beamIndices hot =
     (if i < length points then
        (let curr = points ! i; prev = points ! (i - 1) in
         if same curr prev \<and> \<not> blank curr \<and> \<not> blank prev \<and> i < length points - 1 then
           hb_loop same blank st points (i + 1) (consecutiveCount + 1)
             ((beamIndices @ [i - 1]) @ (if i = length points - 1 then [i] else [])) hot
         else if consecutiveCount > BeamRepeatThreshold st then
           (if beamIndices = [] then None
            else hb_loop same blank st points (i + 1) 0 []
                   (hot @ hot_points (BeamIntensityCount st) (points ! last beamIndices)))
         else hb_loop same blank st points (i + 1) 0 [] hot)
      else Some hot)"
  by pat_completeness auto
termination
  by (relation "measure (\<lambda>(same, blank, st, points, i, c, bi, hot). length points - i)") auto

declare hb_loop.simps [simp del]

definition GenerateHotBeams ::
  "(LaserPoint \<Rightarrow> LaserPoint \<Rightarrow> bool) \<Rightarrow> (LaserPoint \<Rightarrow> bool) \<Rightarrow> LaserSettings \<Rightarrow>
   LaserPoint list \<Rightarrow> LaserPoint list option"
where
  "GenerateHotBeams same blank st points =
     (if length points < 2 then Some [] else hb_loop same blank st points 1 0 [] [])"


text \<open>
  The notion the hot-beam statements are phrased in: the consecutive pair \<open>(i - 1, i)\<close> is
  stationary when both points are at the same position and neither is blank. This is the
  loop's condition without its last conjunct \<^verbatim>\<open>i < points.size() - 1\<close>.
\<close>

definition stationary_pair ::
  "(LaserPoint \<Rightarrow> LaserPoint \<Rightarrow> bool) \<Rightarrow> (LaserPoint \<Rightarrow> bool) \<Rightarrow> LaserPoint list \<Rightarrow> nat \<Rightarrow> bool"
where
  "stationary_pair same blank points i \<longleftrightarrow>
     same (points ! i) (points ! (i - 1)) \<and> \<not> blank (points ! i) \<and> \<not> blank (points ! (i - 1))"

subsection \<open>LaserSource: downsampling and duplicate removal\<close>

text \<open>
  \<^verbatim>\<open>for (size_t i = 0; i < points.size(); i += factor)\<close>. The program reaches the loop only
  with \<^verbatim>\<open>factor > 1\<close>; the recursion repeats that condition so that it is total. The
  inner test \<^verbatim>\<open>if (i < points.size())\<close> is kept as written.
\<close>

function ds_loop :: "LaserPoint list \<Rightarrow> int \<Rightarrow> nat \<Rightarrow> LaserPoint list \<Rightarrow> LaserPoint list" where
  "ds_loop points factor i result =
     (if 1 < factor \<and> i < length points then
        ds_loop points factor (i + nat factor)
          (if i < length points then result @ [points ! i] else result)
      else result)"
  by pat_completeness auto
termination
  by (relation "measure (\<lambda>(points, factor, i, result). length points - i)") auto

declare ds_loop.simps [simp del]

definition DownsamplePoints :: "LaserPoint list \<Rightarrow> int \<Rightarrow> LaserPoint list" where
  "DownsamplePoints points factor =
     (if factor \<le> 1 \<or> points = [] then points else ds_loop points factor 0 [])"

text \<open>
  \<^verbatim>\<open>for (size_t i = 1; i < points.size(); ++i)\<close> of \<^verbatim>\<open>RemoveDuplicatePoints\<close>, run over the
  points after the first. \<^verbatim>\<open>result\<close> starts with one element and only grows, so
  \<^verbatim>\<open>result.back()\<close> is always defined.
\<close>

fun rd_loop ::
  "(LaserPoint \<Rightarrow> LaserPoint \<Rightarrow> bool) \<Rightarrow> LaserPoint list \<Rightarrow> LaserPoint list \<Rightarrow> LaserPoint list"
where
  "rd_loop same [] result = result"
| "rd_loop same (p # rest) result =
     rd_loop same rest (if \<not> same p (last result) then result @ [p] else result)"

definition RemoveDuplicatePoints ::
  "(LaserPoint \<Rightarrow> LaserPoint \<Rightarrow> bool) \<Rightarrow> LaserPoint list \<Rightarrow> LaserPoint list"
where
  "RemoveDuplicatePoints same points =
     (if points = [] then points else rd_loop same (tl points) [hd points])"

subsection \<open>LaserSource: interpolation and scanner simulation\<close>

definition lerp_point :: "LaserPoint \<Rightarrow> LaserPoint \<Rightarrow> real \<Rightarrow> LaserPoint" where
  "lerp_point p0 p1 t =
     \<lparr>X = X p0 + (X p1 - X p0) * t,
      Y = Y p0 + (Y p1 - Y p0) * t,
      R = R p0 + (R p1 - R p0) * t,
      G = G p0 + (G p1 - G p0) * t,
      B = B p0 + (B p1 - B p0) * t,
      Z = (if Z p0 > 0 then Z p0 + (Z p1 - Z p0) * t else 0),
      Focus = Focus p0 + (Focus p1 - Focus p0) * t\<rparr>"

definition InterpolatePoints :: "LaserPoint list \<Rightarrow> int \<Rightarrow> LaserPoint list" where
  "InterpolatePoints points sampleCount =
     (if length points < 2 \<or> sampleCount \<le> 1 then points
      else concat (map (\<lambda>i.
             map (\<lambda>s. lerp_point (points ! i) (points ! (i + 1))
                        (real_of_int s / real_of_int (sampleCount - 1)))
                 [0..sampleCount - 1])
             [0..<length points - 1]))"

definition SmoothVector :: "real \<Rightarrow> real \<Rightarrow> real \<Rightarrow> real \<Rightarrow> real \<Rightarrow> real \<times> real" where
  "SmoothVector currentX currentY targetX targetY smoothing =
     (currentX + (targetX - currentX) * (1 - smoothing),
      currentY + (targetY - currentY) * (1 - smoothing))"

text \<open>
  One pass of the smoothing loop. The state is
  \<open>(currentVelX, currentVelY, currentPosX, currentPosY)\<close>. Two places leave the reals:
  with a zero \<^verbatim>\<open>velLength\<close> the program's \<^verbatim>\<open>1.0f / velLength\<close> is \<open>+\<infinity>\<close> and the
  following \<^verbatim>\<open>min\<close> gives 4, which is written out; with \<^verbatim>\<open>SampleCount = 0\<close> the
  program's \<^verbatim>\<open>stepSize\<close> is infinite, which no real number stands for, and the value of
  \<open>sim_step\<close> there is not the program's. No statement below depends on the value of a
  simulated point.
\<close>

definition sim_step ::
  "LaserSettings \<Rightarrow> real \<times> real \<times> real \<times> real \<Rightarrow> LaserPoint \<Rightarrow>
   (real \<times> real \<times> real \<times> real) \<times> LaserPoint"
where
  "sim_step st s point =
     (case s of (currentVelX, currentVelY, currentPosX, currentPosY) \<Rightarrow>
      let smoothing = VelocitySmoothing st;
          edgeFade = max (1 / 10) (EdgeFade st);
          targetVelX = X point - currentPosX;
          targetVelY = Y point - currentPosY;
          distance = sqrt (targetVelX * targetVelX + targetVelY * targetVelY);
          (velX, velY) = (if distance > 0
                          then SmoothVector currentVelX currentVelY targetVelX targetVelY smoothing
                          else (currentVelX, currentVelY));
          stepSize = 100 / real_of_int (SampleCount st) * (1 / 100);
          posX = (if distance > 0 then currentPosX + velX * stepSize else currentPosX);
          posY = (if distance > 0 then currentPosY + velY * stepSize else currentPosY);
          velLength = sqrt (velX * velX + velY * velY);
          intensity0 = (if velLength = 0 then 4
                        else min 4 (1 / velLength * (2 / 10) * edgeFade * 2));
          intensity1 = min 4 intensity0 / max 1 (edgeFade * 2 * 4);
          fadePercent = max 0 (edgeFade - 1 / 2) * 2;
          intensity2 = (if distance > 0 then intensity1 * (1 - fadePercent) + fadePercent else 1);
          intensity = (if Z point > 0 then 1 else intensity2);
          smoothedPoint = point\<lparr>X := posX, Y := posY\<rparr>
      in ((velX, velY, posX, posY),
          (if Z point = 0
           then smoothedPoint\<lparr>R := R smoothedPoint * intensity,
                              G := G smoothedPoint * intensity,
                              B := B smoothedPoint * intensity\<rparr>
           else smoothedPoint)))"

fun sim_loop ::
  "LaserSettings \<Rightarrow> LaserPoint list \<Rightarrow> real \<times> real \<times> real \<times> real \<Rightarrow> LaserPoint list \<Rightarrow>
   LaserPoint list"
where
  "sim_loop st [] s smoothed = smoothed"
| "sim_loop st (point # rest) s smoothed =
     (case sim_step st s point of (s', smoothedPoint) \<Rightarrow>
        sim_loop st rest s' (smoothed @ [smoothedPoint]))"

text \<open>
  \<^verbatim>\<open>interpolated[0]\<close> exists: the input has at least two points, and interpolation returns
  either the input itself or \<^verbatim>\<open>sampleCount \<ge> 2\<close> samples per pair.
\<close>

definition ApplyScannerSimulation :: "LaserSettings \<Rightarrow> LaserPoint list \<Rightarrow> LaserPoint list" where
  "ApplyScannerSimulation st points =
     (if length points < 2 then points
      else let interpolated = InterpolatePoints points (SampleCount st)
           in sim_loop st interpolated (0, 0, X (hd interpolated), Y (hd interpolated)) [])"

subsection \<open>LaserSource: the per-tick update\<close>

text \<open>
  The members of \<^verbatim>\<open>LaserSource\<close> that the update reads or writes. The mutex is not
  modelled: \<^verbatim>\<open>SetPointList\<close> and \<^verbatim>\<open>UpdatePointList\<close> each hold it from entry to exit, so
  each is one atomic step on this record.
\<close>

record LaserSource =
  m_DeviceID :: int
  m_Settings :: LaserSettings
  m_RawPoints :: "LaserPoint list"
  m_ProcessedPoints :: "LaserPoint list"
  m_BeamPoints :: "LaserPoint list"
  m_HotBeamPoints :: "LaserPoint list"
  m_EnableBeamBrush :: bool

definition SetPointList :: "LaserPoint list \<Rightarrow> LaserSource \<Rightarrow> LaserSource" where
  "SetPointList points src = src\<lparr>m_RawPoints := points\<rparr>"

definition downsampleFactors :: "QualityLevel \<Rightarrow> int \<times> int" where
  \<comment> \<open>the \<^verbatim>\<open>switch\<close>: \<open>(downsampleFactor, downsampleFactorBeams)\<close>\<close>
  "downsampleFactors q =
     (case q of Low \<Rightarrow> (8, 8) | Medium \<Rightarrow> (4, 8) | High \<Rightarrow> (2, 2) | Ultra \<Rightarrow> (1, 1))"

text \<open>
  \<open>None\<close> is the undefined \<^verbatim>\<open>back()\<close> of \<open>hb_loop\<close>; otherwise the source after the tick.
\<close>

definition UpdatePointList ::
  "(LaserPoint \<Rightarrow> LaserPoint \<Rightarrow> bool) \<Rightarrow> (LaserPoint \<Rightarrow> bool) \<Rightarrow> LaserSource \<Rightarrow> bool \<Rightarrow>
   LaserSource option"
where
  "UpdatePointList same blank src enableScannerSim =
     (if m_RawPoints src = [] then
        Some (src\<lparr>m_ProcessedPoints := [], m_BeamPoints := [], m_HotBeamPoints := []\<rparr>)
      else
        case GenerateHotBeams same blank (m_Settings src) (m_RawPoints src) of
          None \<Rightarrow> None
        | Some hot \<Rightarrow>
            (if enableScannerSim \<and> length (m_RawPoints src) > 1 then
               let interpolated = ApplyScannerSimulation (m_Settings src) (m_RawPoints src);
                   (downsampleFactor, downsampleFactorBeams) =
                      downsampleFactors (LaserQuality (m_Settings src));
                   processed = DownsamplePoints interpolated downsampleFactor;
                   beam = DownsamplePoints interpolated downsampleFactorBeams
               in Some (src\<lparr>m_HotBeamPoints := hot,
                             m_ProcessedPoints :=
                               (if m_EnableBeamBrush src
                                then RemoveDuplicatePoints same processed else processed),
                             m_BeamPoints := beam\<rparr>)
             else
               Some (src\<lparr>m_HotBeamPoints := hot,
                          m_ProcessedPoints :=
                            (if m_EnableBeamBrush src
                             then RemoveDuplicatePoints same (m_RawPoints src)
                             else m_RawPoints src),
                          m_BeamPoints := m_RawPoints src\<rparr>)))"

subsection \<open>LaserProtocol: device identification\<close>

text \<open>
  \<^verbatim>\<open>destAddr.sin_addr\<close> as the receive loop reads it through
  \<^verbatim>\<open>unsigned char* addrBytes\<close>: four octets in memory order. \<^verbatim>\<open>s_addr\<close> holds the
  address in network byte order, so \<open>addrBytes[0]\<close> is the first octet of the dotted
  form on every host. \<^verbatim>\<open>s_addr != 0\<close> says that some octet is not zero.
\<close>

record in_addr =
  s_b1 :: "8 word"
  s_b2 :: "8 word"
  s_b3 :: "8 word"
  s_b4 :: "8 word"

definition s_addr_is_zero :: "in_addr \<Rightarrow> bool" where
  "s_addr_is_zero a \<longleftrightarrow> s_b1 a = 0 \<and> s_b2 a = 0 \<and> s_b3 a = 0 \<and> s_b4 a = 0"

text \<open>
  The \<^verbatim>\<open>_WIN32\<close> branch of \<^verbatim>\<open>ReceiveThread\<close>, from the scan of the control messages to
  \<^verbatim>\<open>extractedDeviceID\<close>. The argument is the \<^verbatim>\<open>ipi_addr\<close> of the first
  \<^verbatim>\<open>IP_PKTINFO\<close> message, \<open>None\<close> when the datagram carries none; \<^verbatim>\<open>destAddr\<close> is
  zeroed before the scan. (The other branch of the \<^verbatim>\<open>#ifdef\<close> sets
  \<^verbatim>\<open>extractedDeviceID = -1\<close> for every packet.)
\<close>

definition ExtractDeviceID :: "in_addr option \<Rightarrow> int" where
  "ExtractDeviceID pktInfo =
     (let destAddr = (case pktInfo of
                        None \<Rightarrow> \<lparr>s_b1 = 0, s_b2 = 0, s_b3 = 0, s_b4 = 0\<rparr>
                      | Some ipi_addr \<Rightarrow> ipi_addr)
      in if \<not> s_addr_is_zero destAddr then
           (if s_b1 destAddr = 239 \<and> s_b2 destAddr = 255 then uint (s_b3 destAddr) else - 1)
         else - 1)"

subsection \<open>LaserProtocol: packet decoding\<close>

text \<open>
  The body of the decoding loop up to the clamps, for sample \<open>i\<close> of the float array that
  \<^verbatim>\<open>GetData\<close> returned: the six locals \<^verbatim>\<open>X, Y, Focus, R, G, B\<close> after normalisation, sign
  inversion and range protection, collected in one point (its \<open>Z\<close> is not used).
\<close>

definition decode_sample :: "real list \<Rightarrow> nat \<Rightarrow> LaserPoint" where
  "decode_sample floatData i =
     (let x = floatData ! (i * 6 + 0);
          y = floatData ! (i * 6 + 1);
          focus = floatData ! (i * 6 + 2);
          r = floatData ! (i * 6 + 3);
          g = floatData ! (i * 6 + 4);
          b = floatData ! (i * 6 + 5);
          (r, g, b) = (if r > 1 \<or> g > 1 \<or> b > 1 then (r / 255, g / 255, b / 255)
                       else (r, g, b));
          y = - y;
          r = max 0 (min 1 r);
          g = max 0 (min 1 g);
          b = max 0 (min 1 b);
          focus = max 0 (min 255 focus) / 255
      in \<lparr>X = x, Y = y, R = r, G = g, B = b, Z = 0, Focus = focus\<rparr>)"

text \<open>
  \<^verbatim>\<open>for (int i = 0; i < pointCount; ++i)\<close>: push the point with zero colour, then give the
  colour and focus just decoded to \<^verbatim>\<open>points[points.size() - 2]\<close>.
\<close>

function pp_loop :: "real list \<Rightarrow> int \<Rightarrow> nat \<Rightarrow> LaserPoint list \<Rightarrow> LaserPoint list" where
  "pp_loop floatData pointCount i points =
     (if int i < pointCount then
        (let s = decode_sample floatData i;
             point = \<lparr>X = X s, Y = Y s, R = 0, G = 0, B = 0, Z = 0, Focus = 0\<rparr>;
             points1 = points @ [point];
             points2 = (if i > 0
                        then points1[length points1 - 2 :=
                               (points1 ! (length points1 - 2))
                                 \<lparr>R := R s, G := G s, B := B s, Focus := Focus s\<rparr>]
                        else points1)
         in pp_loop floatData pointCount (i + 1) points2)
      else points)"
  by pat_completeness auto
termination
  by (relation "measure (\<lambda>(floatData, pointCount, i, points). nat pointCount - i)") auto

declare pp_loop.simps [simp del]

text \<open>
  The members of \<^verbatim>\<open>LaserProtocol\<close> on the packet path. The decoder module is opaque:
  \<open>m_ReadLaserData\<close> says whether that entry point was loaded, and \<open>m_GetData\<close>, when
  loaded, is the module's answer after \<^verbatim>\<open>ReadLaserData\<close> has consumed the packet at
  hand: for a device, the returned pointer (\<open>None\<close> for \<^verbatim>\<open>nullptr\<close>, else the float array
  behind it) and the value of \<^verbatim>\<open>pointCount\<close> after the call (0 when the module stores
  none). The module is trusted to return at least \<open>6 * pointCount\<close> floats; the loop reads
  them unchecked, and the statements about wire values below carry that bound as a
  premise. \<open>m_DataCallback\<close> says whether a callback is registered.
\<close>

record LaserProtocol =
  m_MaxDevices :: int
  m_ReadLaserData :: bool
  m_GetData :: "(int \<Rightarrow> real list option \<times> int) option"
  m_DataCallback :: bool

text \<open>
  \<^verbatim>\<open>ParsePacket\<close>: \<open>None\<close> for \<^verbatim>\<open>return false\<close>, \<open>Some (deviceID, points)\<close> for
  \<^verbatim>\<open>return true\<close> with the two output parameters.
\<close>

definition ParsePacket :: "LaserProtocol \<Rightarrow> nat \<Rightarrow> int \<Rightarrow> (int \<times> LaserPoint list) option" where
  "ParsePacket proto len extractedDeviceID =
     (if len = 0 \<or> \<not> m_ReadLaserData proto \<or> m_GetData proto = None then None
      else if extractedDeviceID \<ge> 0 \<and> extractedDeviceID < 4 then
        (case the (m_GetData proto) extractedDeviceID of (pointDataPtr, pointCount) \<Rightarrow>
           if pointCount > 0 \<and> pointDataPtr \<noteq> None
           then Some (extractedDeviceID, pp_loop (the pointDataPtr) pointCount 0 [])
           else None)
      else None)"

text \<open>
  One round of the receive loop after a datagram of \<open>bytesReceived > 0\<close> bytes has
  arrived: the arguments the data callback is invoked with, or \<open>None\<close> when it is not
  invoked.
\<close>

definition ReceiveThread_packet ::
  "LaserProtocol \<Rightarrow> in_addr option \<Rightarrow> nat \<Rightarrow> (int \<times> LaserPoint list) option"
where
  "ReceiveThread_packet proto pktInfo bytesReceived =
     (let extractedDeviceID = ExtractDeviceID pktInfo in
      case ParsePacket proto bytesReceived extractedDeviceID of
        None \<Rightarrow> None
      | Some (deviceID, points) \<Rightarrow>
          if m_DataCallback proto then Some (deviceID, points) else None)"

text \<open>
  The list the decoding loop ends with, in closed form: point \<open>k\<close> carries the position of
  sample \<open>k\<close> and, when \<open>b\<close> holds, the colour and focus of sample \<open>k + 1\<close>. It is used to
  state what \<open>pp_loop\<close> computes and is proved equal to it below.
\<close>

definition out_point :: "real list \<Rightarrow> nat \<Rightarrow> bool \<Rightarrow> LaserPoint" where
  "out_point fd k b =
     (if b then \<lparr>X = X (decode_sample fd k), Y = Y (decode_sample fd k),
                 R = R (decode_sample fd (Suc k)), G = G (decode_sample fd (Suc k)),
                 B = B (decode_sample fd (Suc k)), Z = 0,
                 Focus = Focus (decode_sample fd (Suc k))\<rparr>
      else \<lparr>X = X (decode_sample fd k), Y = Y (decode_sample fd k),
            R = 0, G = 0, B = 0, Z = 0, Focus = 0\<rparr>)"

subsection \<open>Concrete inputs\<close>

text \<open>
  Points, settings and a decoder answer on which the functions are run below. \<open>ex_p\<close> is a
  red point at the origin and \<open>ex_q\<close> a red point one unit to its right: two copies of
  \<open>ex_p\<close> in a row are a stationary pair, and \<open>ex_p\<close> next to \<open>ex_q\<close> is not.
\<close>

definition ex_p :: LaserPoint where
  "ex_p = \<lparr>X = 0, Y = 0, R = 1, G = 0, B = 0, Z = 0, Focus = 0\<rparr>"

definition ex_q :: LaserPoint where
  "ex_q = \<lparr>X = 1, Y = 0, R = 1, G = 0, B = 0, Z = 0, Focus = 0\<rparr>"

definition ex_settings :: "int \<Rightarrow> int \<Rightarrow> LaserSettings" where
  "ex_settings threshold count =
     \<lparr>MaxLaserDevices = 9, ScannerSimulation = True, LaserQuality = High, SampleCount = 4,
      VelocitySmoothing = 83 / 100, EdgeFade = 1 / 10,
      BeamRepeatThreshold = threshold, BeamIntensityCount = count, EnableBeamBrush = True\<rparr>"

definition ex_source :: "LaserPoint list \<Rightarrow> LaserSource" where
  "ex_source raw =
     \<lparr>m_DeviceID = 0, m_Settings = ex_settings 1 2, m_RawPoints = raw,
      m_ProcessedPoints = [ex_q], m_BeamPoints = [ex_q], m_HotBeamPoints = [ex_q],
      m_EnableBeamBrush = True\<rparr>"

definition ex_wire :: "real list" where
  \<comment> \<open>three samples of six floats: X, Y, Focus, R, G, B\<close>
  "ex_wire = [0, 0, 0, 0, 0, 0,   10, 0, 0, 0, 255, 0,   10, 10, 0, 255, 0, 0]"

definition ex_proto :: "real list \<Rightarrow> int \<Rightarrow> LaserProtocol" where
  "ex_proto floatData pointCount =
     \<lparr>m_MaxDevices = 9, m_ReadLaserData = True,
      m_GetData = Some (\<lambda>device. (Some floatData, pointCount)), m_DataCallback = True\<rparr>"

text \<open>What the three wire samples decode to.\<close>

definition ex_decoded :: "LaserPoint list" where
  "ex_decoded = [\<lparr>X = 0, Y = 0, R = 0, G = 1, B = 0, Z = 0, Focus = 0\<rparr>,
                 \<lparr>X = 10, Y = 0, R = 1, G = 0, B = 0, Z = 0, Focus = 0\<rparr>,
                 \<lparr>X = 10, Y = - 10, R = 0, G = 0, B = 0, Z = 0, Focus = 0\<rparr>]"

section \<open>Properties\<close>

subsection \<open>The hot-beam loop, step by step\<close>

lemma hb_loop_end:
  "length points \<le> i \<Longrightarrow> hb_loop same blank st points i c bi hot = Some hot"
  by (subst hb_loop.simps) simp

lemma hb_loop_count:
  "i < length points - 1 \<Longrightarrow> stationary_pair same blank points i \<Longrightarrow>
   hb_loop same blank st points i c bi hot =
   hb_loop same blank st points (i + 1) (c + 1) (bi @ [i - 1]) hot"
  using hb_loop.simps [of same blank st points i c bi hot]
  by (auto simp add: stationary_pair_def Let_def)

lemma hb_loop_quiet:
  "i < length points \<Longrightarrow> \<not> stationary_pair same blank points i \<or> i = length points - 1 \<Longrightarrow>
   c \<le> BeamRepeatThreshold st \<Longrightarrow>
   hb_loop same blank st points i c bi hot = hb_loop same blank st points (i + 1) 0 [] hot"
  using hb_loop.simps [of same blank st points i c bi hot]
  by (auto simp add: stationary_pair_def Let_def)

lemma hb_loop_emit:
  "i < length points \<Longrightarrow> \<not> stationary_pair same blank points i \<or> i = length points - 1 \<Longrightarrow>
   BeamRepeatThreshold st < c \<Longrightarrow> bi \<noteq> [] \<Longrightarrow>
   hb_loop same blank st points i c bi hot =
   hb_loop same blank st points (i + 1) 0 []
     (hot @ hot_points (BeamIntensityCount st) (points ! last bi))"
  using hb_loop.simps [of same blank st points i c bi hot]
  by (auto simp add: stationary_pair_def Let_def)

lemma hb_loop_skip:
  "0 \<le> BeamRepeatThreshold st \<Longrightarrow> i + k \<le> length points \<Longrightarrow>
   \<forall>j. i \<le> j \<and> j < i + k \<longrightarrow> \<not> stationary_pair same blank points j \<Longrightarrow>
   hb_loop same blank st points i 0 [] hot = hb_loop same blank st points (i + k) 0 [] hot"
proof (induction k arbitrary: i)
  case 0
  then show ?case by simp
next
  case (Suc k)
  have "hb_loop same blank st points i 0 [] hot = hb_loop same blank st points (i + 1) 0 [] hot"
    using Suc.prems by (intro hb_loop_quiet) auto
  also have "\<dots> = hb_loop same blank st points ((i + 1) + k) 0 [] hot"
    using Suc.prems by (intro Suc.IH) auto
  finally show ?case by simp
qed

lemma hb_loop_run:
  "i + k < length points \<Longrightarrow>
   \<forall>j. i \<le> j \<and> j < i + k \<longrightarrow> stationary_pair same blank points j \<Longrightarrow>
   hb_loop same blank st points i c bi hot =
   hb_loop same blank st points (i + k) (c + int k) (bi @ map (\<lambda>j. j - 1) [i..<i + k]) hot"
proof (induction k arbitrary: i c bi)
  case 0
  then show ?case by simp
next
  case (Suc k)
  have "hb_loop same blank st points i c bi hot =
        hb_loop same blank st points (i + 1) (c + 1) (bi @ [i - 1]) hot"
    using Suc.prems by (intro hb_loop_count) auto
  also have "\<dots> = hb_loop same blank st points ((i + 1) + k) ((c + 1) + int k)
                     ((bi @ [i - 1]) @ map (\<lambda>j. j - 1) [i + 1..<(i + 1) + k]) hot"
    using Suc.prems by (intro Suc.IH) auto
  finally have step: "hb_loop same blank st points i c bi hot =
        hb_loop same blank st points ((i + 1) + k) ((c + 1) + int k)
          ((bi @ [i - 1]) @ map (\<lambda>j. j - 1) [i + 1..<(i + 1) + k]) hot" .
  have e1: "(i + 1) + k = i + Suc k" by simp
  have e2: "(c + 1) + int k = c + int (Suc k)" by simp
  have "[i..<i + Suc k] = i # [i + 1..<i + Suc k]"
    by (simp add: upt_conv_Cons)
  then have e3: "(bi @ [i - 1]) @ map (\<lambda>j. j - 1) [i + 1..<i + Suc k] =
                 bi @ map (\<lambda>j. j - 1) [i..<i + Suc k]"
    by simp
  show ?case using step unfolding e1 e2 e3 .
qed

lemma hb_loop_block:
  assumes T: "0 \<le> BeamRepeatThreshold st"
    and e: "a + k < length points"
    and run: "\<forall>j. a \<le> j \<and> j < a + k \<longrightarrow> stationary_pair same blank points j"
    and stop: "\<not> stationary_pair same blank points (a + k) \<or> a + k = length points - 1"
  shows "hb_loop same blank st points a 0 [] hot =
         hb_loop same blank st points (a + k + 1) 0 []
           (if BeamRepeatThreshold st < int k
            then hot @ hot_points (BeamIntensityCount st) (points ! (a + k - 2)) else hot)"
proof -
  let ?bi = "map (\<lambda>j. j - 1) [a..<a + k]"
  have r: "hb_loop same blank st points a 0 [] hot =
           hb_loop same blank st points (a + k) (int k) ?bi hot"
    using hb_loop_run [OF e run, of st 0 "[]" hot] by simp
  show ?thesis
  proof (cases "BeamRepeatThreshold st < int k")
    case True
    with T have k: "0 < k" by simp
    then have ne: "?bi \<noteq> []" by simp
    from k have "last ?bi = a + k - 2" by (simp add: last_map)
    with hb_loop_emit [OF e stop True ne, of hot] r True show ?thesis by simp
  next
    case False
    then have "int k \<le> BeamRepeatThreshold st" by simp
    from hb_loop_quiet [OF e stop this, of ?bi hot] r False show ?thesis by simp
  qed
qed


lemma length_hot_points: "length (hot_points n p) = nat n"
  by (simp add: hot_points_def)

lemma Z_hot_points: "map Z (hot_points n p) = map (hot_level n) [0..n - 1]"
  by (simp add: hot_points_def comp_def)

lemma hot_points_copy: "h \<in> set (hot_points n p) \<Longrightarrow> h = p\<lparr>Z := Z h\<rparr>"
  by (auto simp add: hot_points_def)

lemma hot_level_less:
  assumes n: "2 \<le> n" "n \<le> 10000" and j: "0 \<le> j" "j < k"
  shows "hot_level n j < hot_level n k"
proof -
  from n have pos: "0 < real_of_int (n - 1)" by simp
  from n have "real_of_int (n - 1) < 10000" by simp
  with pos have "1 / 10000 < 1 / real_of_int (n - 1)"
    by (simp add: field_simps)
  also from j pos have "1 / real_of_int (n - 1) \<le> real_of_int k / real_of_int (n - 1)"
    by (simp add: divide_right_mono)
  finally have a: "1 / 10000 < real_of_int k / real_of_int (n - 1)" .
  from j pos have b: "real_of_int j / real_of_int (n - 1) < real_of_int k / real_of_int (n - 1)"
    by (simp add: divide_strict_right_mono)
  from n a b show ?thesis by (simp add: hot_level_def)
qed

lemma hot_points_increasing:
  assumes "2 \<le> n" "n \<le> 10000"
  shows "sorted_wrt (<) (map Z (hot_points n p))"
proof -
  have "sorted_wrt (<) [0..n - 1]" by simp
  then have "sorted_wrt (\<lambda>j k. hot_level n j < hot_level n k) [0..n - 1]"
    by (rule sorted_wrt_mono_rel [rotated]) (simp add: hot_level_less [OF assms])
  then show ?thesis by (simp add: Z_hot_points sorted_wrt_map)
qed

lemma hot_points_last:
  assumes "2 \<le> n"
  shows "Z (last (hot_points n p)) = 1"
proof -
  from assms have "[0..n - 1] = [0..n - 1 - 1] @ [n - 1]"
    by (simp add: upto_rec2)
  then have "last (hot_points n p) = p\<lparr>Z := hot_level n (n - 1)\<rparr>"
    by (simp add: hot_points_def)
  with assms show ?thesis by (simp add: hot_level_def)
qed

subsection \<open>Downsampling in closed form\<close>

lemma ds_loop_closed:
  "1 < factor \<Longrightarrow> i = j * nat factor \<Longrightarrow>
         ds_loop points factor i result =
         result @ map (\<lambda>m. points ! (m * nat factor)) [j..<(length points + nat factor - 1) div nat factor]"
proof (induction points factor i result arbitrary: j rule: ds_loop.induct)
  case (1 points factor i result)
  let ?k = "nat factor"
  let ?u = "(length points + ?k - 1) div ?k"
  note f = "1.prems"(1) and i = "1.prems"(2)
  from f have kpos: "0 < ?k" by simp
  show ?case
  proof (cases "i < length points")
    case True
    have ju: "j < ?u"
    proof -
      from True i have "j * ?k < length points" by simp
      then have "j * ?k + ?k \<le> length points + ?k - 1" using kpos by simp
      then have "(j + 1) * ?k \<le> length points + ?k - 1" by (simp add: algebra_simps)
      then have "j + 1 \<le> ?u" using kpos by (simp add: less_eq_div_iff_mult_less_eq)
      then show ?thesis by simp
    qed
    have "ds_loop points factor i result = ds_loop points factor (i + ?k) (result @ [points ! i])"
      using True f by (subst ds_loop.simps) simp
    also have "\<dots> = (result @ [points ! i]) @ map (\<lambda>m. points ! (m * ?k)) [Suc j..<?u]"
      using "1.IH" [of "Suc j"] True f i by (simp add: algebra_simps)
    also have "\<dots> = result @ map (\<lambda>m. points ! (m * ?k)) [j..<?u]"
      using ju i by (simp add: upt_conv_Cons)
    finally show ?thesis .
  next
    case False
    have "?u \<le> j"
    proof -
      from False i have "length points \<le> j * ?k" by simp
      then have "length points + ?k - 1 < (j + 1) * ?k" using kpos by (simp add: algebra_simps)
      then have "?u < j + 1" using kpos by (simp add: div_less_iff_less_mult)
      then show ?thesis by simp
    qed
    moreover have "ds_loop points factor i result = result"
      using False by (subst ds_loop.simps) simp
    ultimately show ?thesis by simp
  qed
qed

lemma DownsamplePoints_closed:
  "1 < factor \<Longrightarrow>
   DownsamplePoints points factor =
   map (\<lambda>m. points ! (m * nat factor)) [0..<(length points + nat factor - 1) div nat factor]"
  using ds_loop_closed [of factor 0 0 points "[]"]
  by (auto simp add: DownsamplePoints_def)

lemma ceil_div:
  assumes k: "0 < k"
  shows "int ((n + k - 1) div k) = \<lceil>real n / real k\<rceil>"
proof -
  define q where "q = (n + k - 1) div k"
  have lo: "q * k \<le> n + k - 1"
    unfolding q_def by (rule div_times_less_eq_dividend)
  have hi: "n + k - 1 < (q + 1) * k"
    unfolding q_def using k by (metis dividend_less_times_div mult.commute mult_Suc Suc_eq_plus1)
  from hi k have up: "n \<le> q * k" by (simp add: algebra_simps)
  from lo k have dn: "q * k < n + k" by simp
  have "real n / real k \<le> real q"
    using up k by (simp add: pos_divide_le_eq flip: of_nat_mult)
  moreover have "real q - 1 < real n / real k"
  proof -
    from dn have "real (q * k) < real (n + k)" by (simp only: of_nat_less_iff)
    then have "(real q - 1) * real k < real n" by (simp add: algebra_simps)
    then show ?thesis using k by (simp add: pos_less_divide_eq)
  qed
  ultimately have "\<lceil>real n / real k\<rceil> = int q"
    by (intro ceiling_unique) simp_all
  then show ?thesis by (simp add: q_def)
qed

subsection \<open>Duplicate removal\<close>

lemma rd_loop_length: "length (rd_loop same ps result) \<le> length result + length ps"
proof (induction ps arbitrary: result)
  case Nil
  then show ?case by simp
next
  case (Cons p ps)
  have "length (rd_loop same ps (if \<not> same p (last result) then result @ [p] else result))
        \<le> length (if \<not> same p (last result) then result @ [p] else result) + length ps"
    by (rule Cons.IH)
  then show ?case by (simp split: if_splits)
qed

lemma rd_loop_hd: "result \<noteq> [] \<Longrightarrow> hd (rd_loop same ps result) = hd result"
  by (induction ps arbitrary: result) simp_all

lemma rd_loop_successively:
  "result \<noteq> [] \<Longrightarrow> successively (\<lambda>a b. \<not> same b a) result \<Longrightarrow>
   successively (\<lambda>a b. \<not> same b a) (rd_loop same ps result)"
proof (induction ps arbitrary: result)
  case Nil
  then show ?case by simp
next
  case (Cons p ps)
  show ?case
  proof (cases "same p (last result)")
    case True
    with Cons show ?thesis by simp
  next
    case False
    with Cons.prems have "successively (\<lambda>a b. \<not> same b a) (result @ [p])"
      by (simp add: successively_append_iff)
    with Cons.IH [of "result @ [p]"] False show ?thesis by simp
  qed
qed

lemma successively_nth:
  "successively P xs \<Longrightarrow> Suc i < length xs \<Longrightarrow> P (xs ! i) (xs ! Suc i)"
proof (induction xs arbitrary: i)
  case Nil
  then show ?case by simp
next
  case (Cons x xs)
  then show ?case by (cases i; cases xs) (auto simp add: successively_Cons)
qed

lemma rd_loop_ne: "result \<noteq> [] \<Longrightarrow> rd_loop same ps result \<noteq> []"
  by (induction ps arbitrary: result) simp_all

subsection \<open>The decoding loop in closed form\<close>

lemma pp_loop_closed:
  "points = map (\<lambda>k. out_point fd k (Suc k < i)) [0..<i] \<Longrightarrow> int i \<le> max 0 n \<Longrightarrow>
   pp_loop fd n i points = map (\<lambda>k. out_point fd k (int (Suc k) < n)) [0..<nat n]"
proof (induction fd n i points rule: pp_loop.induct)
  case (1 fd n i points)
  show ?case
  proof (cases "int i < n")
    case False
    with "1.prems" have "nat n = i" by (simp add: max_def split: if_splits)
    moreover from False have "pp_loop fd n i points = points"
      by (subst pp_loop.simps) simp
    moreover have "\<And>k. k < i \<Longrightarrow> (Suc k < i) = (int (Suc k) < n)"
      using \<open>nat n = i\<close> by auto
    ultimately show ?thesis using "1.prems"(1) by simp
  next
    case True
    define s where "s = decode_sample fd i"
    define point where "point = \<lparr>X = X s, Y = Y s, R = 0, G = 0, B = 0, Z = 0, Focus = 0\<rparr>"
    define points1 where "points1 = points @ [point]"
    define points2 where "points2 = (if i > 0
                        then points1[length points1 - 2 :=
                               (points1 ! (length points1 - 2))
                                 \<lparr>R := R s, G := G s, B := B s, Focus := Focus s\<rparr>]
                        else points1)"
    have len: "length points = i" using "1.prems"(1) by simp
    have step: "pp_loop fd n i points = pp_loop fd n (i + 1) points2"
      using True by (subst pp_loop.simps) (simp add: Let_def s_def point_def points1_def points2_def)
    have inv: "points2 = map (\<lambda>k. out_point fd k (Suc k < i + 1)) [0..<i + 1]"
    proof (rule nth_equalityI)
      show "length points2 = length (map (\<lambda>k. out_point fd k (Suc k < i + 1)) [0..<i + 1])"
        using len by (simp add: points2_def points1_def)
    next
      fix k assume "k < length points2"
      then have k: "k < i + 1" using len by (simp add: points2_def points1_def split: if_splits)
      consider "k = i" | "Suc k = i" | "Suc k < i" using k by linarith
      then show "points2 ! k = map (\<lambda>k. out_point fd k (Suc k < i + 1)) [0..<i + 1] ! k"
      proof cases
        case 1
        then show ?thesis using len
          by (auto simp add: points2_def points1_def point_def s_def out_point_def nth_append
              simp del: upt_Suc)
      next
        case 2
        then have pk: "points ! k = out_point fd k False"
          using "1.prems"(1) by (simp del: upt_Suc)
        from 2 len have idx: "length points1 - 2 = k" and kl: "k < length points1"
          and kp: "k < length points" and ipos: "0 < i"
          by (simp_all add: points1_def)
        from ipos have "points2 ! k =
                        (points1 ! k)\<lparr>R := R s, G := G s, B := B s, Focus := Focus s\<rparr>"
          using kl by (simp add: points2_def idx)
        also have "points1 ! k = points ! k"
          using kp by (simp add: points1_def nth_append)
        finally show ?thesis using 2 pk k
          by (simp add: out_point_def s_def del: upt_Suc)
      next
        case 3
        then have pk: "points ! k = out_point fd k True"
          using "1.prems"(1) by (simp del: upt_Suc)
        from 3 len have idx: "length points1 - 2 \<noteq> k" and kp: "k < length points"
          by (simp_all add: points1_def)
        from idx have "points2 ! k = points1 ! k"
          by (simp add: points2_def)
        also have "points1 ! k = points ! k"
          using kp by (simp add: points1_def nth_append)
        finally show ?thesis using 3 pk k
          by (simp del: upt_Suc)
      qed
    qed
    have "pp_loop fd n (i + 1) points2 = map (\<lambda>k. out_point fd k (int (Suc k) < n)) [0..<nat n]"
      using True inv
      by (intro "1.IH" [OF True s_def point_def points1_def points2_def]) simp_all
    with step show ?thesis by simp
  qed
qed


subsection \<open>The hot-beam loop never reads an empty index list\<close>

lemma hb_loop_defined:
  "0 \<le> BeamRepeatThreshold st \<Longrightarrow> c \<le> 0 \<or> bi \<noteq> [] \<Longrightarrow>
   \<exists>out. hb_loop same blank st points i c bi hot = Some out"
proof (induction "length points - i" arbitrary: i c bi hot)
  case 0
  then have "length points \<le> i" by simp
  then show ?case by (simp add: hb_loop_end)
next
  case (Suc d)
  then have i: "i < length points" and d: "d = length points - (i + 1)" by simp_all
  show ?case
  proof (cases "stationary_pair same blank points i \<and> i < length points - 1")
    case True
    then have "hb_loop same blank st points i c bi hot =
               hb_loop same blank st points (i + 1) (c + 1) (bi @ [i - 1]) hot"
      by (simp add: hb_loop_count)
    moreover have "\<exists>out. hb_loop same blank st points (i + 1) (c + 1) (bi @ [i - 1]) hot = Some out"
      using Suc.prems d by (intro Suc.hyps(1)) simp_all
    ultimately show ?thesis by simp
  next
    case False
    then have stop: "\<not> stationary_pair same blank points i \<or> i = length points - 1"
      using i by auto
    show ?thesis
    proof (cases "BeamRepeatThreshold st < c")
      case True
      with Suc.prems have ne: "bi \<noteq> []" by auto
      have "hb_loop same blank st points i c bi hot =
            hb_loop same blank st points (i + 1) 0 []
              (hot @ hot_points (BeamIntensityCount st) (points ! last bi))"
        using i stop True ne by (rule hb_loop_emit)
      moreover have "\<exists>out. hb_loop same blank st points (i + 1) 0 []
              (hot @ hot_points (BeamIntensityCount st) (points ! last bi)) = Some out"
        using Suc.prems d by (intro Suc.hyps(1)) simp_all
      ultimately show ?thesis by simp
    next
      case False
      then have le: "c \<le> BeamRepeatThreshold st" by simp
      have "hb_loop same blank st points i c bi hot =
            hb_loop same blank st points (i + 1) 0 [] hot"
        using i stop le by (rule hb_loop_quiet)
      moreover have "\<exists>out. hb_loop same blank st points (i + 1) 0 [] hot = Some out"
        using Suc.prems d by (intro Suc.hyps(1)) simp_all
      ultimately show ?thesis by simp
    qed
  qed
qed

lemma GenerateHotBeams_defined:
  "0 \<le> BeamRepeatThreshold st \<Longrightarrow> \<exists>out. GenerateHotBeams same blank st points = Some out"
  using hb_loop_defined [of st 0 "[]" same blank points 1 "[]"]
  by (simp add: GenerateHotBeams_def)

subsection \<open>Hot beams of a list, run by run\<close>

text \<open>
  The loop on a prefix and on a suffix of the list, against the loop on the whole list:
  up to a pair that is not stationary the two agree, and after such a pair the loop starts
  afresh, so that what a list emits is what its parts emit, in order.
\<close>

lemma hb_loop_undefined:
  "i < length points \<Longrightarrow> \<not> stationary_pair same blank points i \<or> i = length points - 1 \<Longrightarrow>
   BeamRepeatThreshold st < c \<Longrightarrow>
   hb_loop same blank st points i c [] hot = None"
  using hb_loop.simps [of same blank st points i c "[]" hot]
  by (auto simp add: stationary_pair_def Let_def)

lemma hb_loop_acc:
  "hb_loop same blank st points i c bi hot =
   map_option ((@) hot) (hb_loop same blank st points i c bi [])"
proof (induction "length points - i" arbitrary: i c bi hot)
  case 0
  then have "length points \<le> i" by simp
  then show ?case by (simp add: hb_loop_end)
next
  case (Suc d)
  then have i: "i < length points" and d: "d = length points - (i + 1)" by simp_all
  show ?case
  proof (cases "stationary_pair same blank points i \<and> i < length points - 1")
    case True
    then have "\<And>h. hb_loop same blank st points i c bi h =
                   hb_loop same blank st points (i + 1) (c + 1) (bi @ [i - 1]) h"
      by (simp add: hb_loop_count)
    with Suc.hyps(1) [OF d, of "c + 1" "bi @ [i - 1]" hot] show ?thesis by simp
  next
    case False
    then have stop: "\<not> stationary_pair same blank points i \<or> i = length points - 1"
      using i by auto
    show ?thesis
    proof (cases "BeamRepeatThreshold st < c")
      case quiet: False
      then have le: "c \<le> BeamRepeatThreshold st" by simp
      have "\<And>h. hb_loop same blank st points i c bi h =
                 hb_loop same blank st points (i + 1) 0 [] h"
        using i stop le by (rule hb_loop_quiet)
      with Suc.hyps(1) [OF d, of 0 "[]" hot] show ?thesis by simp
    next
      case emit: True
      show ?thesis
      proof (cases "bi = []")
        case True
        with i stop emit show ?thesis by (simp add: hb_loop_undefined)
      next
        case False
        let ?E = "hot_points (BeamIntensityCount st) (points ! last bi)"
        have s: "\<And>h. hb_loop same blank st points i c bi h =
                 hb_loop same blank st points (i + 1) 0 [] (h @ ?E)"
          using i stop emit False by (rule hb_loop_emit)
        have "hb_loop same blank st points (i + 1) 0 [] (hot @ ?E) =
              map_option ((@) (hot @ ?E)) (hb_loop same blank st points (i + 1) 0 [] [])"
          by (rule Suc.hyps(1) [OF d])
        moreover have "hb_loop same blank st points (i + 1) 0 [] ([] @ ?E) =
              map_option ((@) ([] @ ?E)) (hb_loop same blank st points (i + 1) 0 [] [])"
          by (rule Suc.hyps(1) [OF d])
        ultimately show ?thesis
          by (cases "hb_loop same blank st points (i + 1) 0 [] []") (simp_all add: s)
      qed
    qed
  qed
qed

lemma stationary_pair_take:
  "i < a \<Longrightarrow> stationary_pair same blank (take a points) i = stationary_pair same blank points i"
  by (simp add: stationary_pair_def)

lemma hb_loop_take:
  assumes a: "a \<le> length points"
    and stop: "\<not> stationary_pair same blank points (a - 1) \<or> a = length points"
  shows "i < a \<Longrightarrow> \<forall>x \<in> set bi. x < i \<Longrightarrow>
         hb_loop same blank st (take a points) i c bi hot = Some out \<Longrightarrow>
         hb_loop same blank st points i c bi hot = hb_loop same blank st points a 0 [] out"
proof (induction "a - i" arbitrary: i c bi hot)
  case 0
  then show ?case by simp
next
  case (Suc d)
  from a have len: "length (take a points) = a" by simp
  from Suc.prems(1) a have i: "i < length points" by simp
  have st: "stationary_pair same blank (take a points) i = stationary_pair same blank points i"
    using Suc.prems(1) by (rule stationary_pair_take)
  show ?case
  proof (cases "i = a - 1")
    case last: True
    then have ia: "i + 1 = a" using Suc.prems(1) by simp
    have stop_take: "\<not> stationary_pair same blank (take a points) i \<or>
                     i = length (take a points) - 1"
      using last len by simp
    have stop_full: "\<not> stationary_pair same blank points i \<or> i = length points - 1"
      using stop last by auto
    have it: "i < length (take a points)" using Suc.prems(1) len by simp
    have fin: "\<And>h. hb_loop same blank st (take a points) (i + 1) 0 [] h = Some h"
      using ia len by (simp add: hb_loop_end)
    show ?thesis
    proof (cases "BeamRepeatThreshold st < c")
      case quiet: False
      then have le: "c \<le> BeamRepeatThreshold st" by simp
      have "hb_loop same blank st (take a points) i c bi hot = Some hot"
        using hb_loop_quiet [OF it stop_take le, of bi hot] fin by simp
      with Suc.prems(3) have "out = hot" by simp
      moreover have "hb_loop same blank st points i c bi hot =
                     hb_loop same blank st points (i + 1) 0 [] hot"
        using i stop_full le by (rule hb_loop_quiet)
      ultimately show ?thesis using ia by simp
    next
      case emit: True
      show ?thesis
      proof (cases "bi = []")
        case True
        with hb_loop_undefined [OF it stop_take emit, of hot] Suc.prems(3)
        show ?thesis by simp
      next
        case False
        then have "last bi \<in> set bi" by simp
        with Suc.prems(2) Suc.prems(1) have "last bi < a" by fastforce
        then have pt: "take a points ! last bi = points ! last bi" by simp
        have "hb_loop same blank st (take a points) i c bi hot =
              Some (hot @ hot_points (BeamIntensityCount st) (points ! last bi))"
          using hb_loop_emit [OF it stop_take emit False, of hot] fin pt by simp
        with Suc.prems(3)
        have "out = hot @ hot_points (BeamIntensityCount st) (points ! last bi)" by simp
        moreover have "hb_loop same blank st points i c bi hot =
                       hb_loop same blank st points (i + 1) 0 []
                         (hot @ hot_points (BeamIntensityCount st) (points ! last bi))"
          using i stop_full emit False by (rule hb_loop_emit)
        ultimately show ?thesis using ia by simp
      qed
    qed
  next
    case inner: False
    with Suc.prems(1) have i1: "i + 1 < a" by simp
    with a have it1: "i < length (take a points) - 1" and if1: "i < length points - 1"
      by simp_all
    from Suc.hyps(2) have d: "d = a - (i + 1)" by simp
    show ?thesis
    proof (cases "stationary_pair same blank points i")
      case True
      have t: "hb_loop same blank st (take a points) i c bi hot =
               hb_loop same blank st (take a points) (i + 1) (c + 1) (bi @ [i - 1]) hot"
        using it1 True st by (simp add: hb_loop_count)
      have f: "hb_loop same blank st points i c bi hot =
               hb_loop same blank st points (i + 1) (c + 1) (bi @ [i - 1]) hot"
        using if1 True by (simp add: hb_loop_count)
      have "hb_loop same blank st points (i + 1) (c + 1) (bi @ [i - 1]) hot =
            hb_loop same blank st points a 0 [] out"
      proof (rule Suc.hyps(1) [OF d i1])
        show "\<forall>x \<in> set (bi @ [i - 1]). x < i + 1"
          using Suc.prems(2) by auto
        show "hb_loop same blank st (take a points) (i + 1) (c + 1) (bi @ [i - 1]) hot = Some out"
          using t Suc.prems(3) by simp
      qed
      with f show ?thesis by simp
    next
      case False
      have it: "i < length (take a points)" using Suc.prems(1) len by simp
      have stop_take: "\<not> stationary_pair same blank (take a points) i \<or>
                       i = length (take a points) - 1"
        using False st by simp
      have stop_full: "\<not> stationary_pair same blank points i \<or> i = length points - 1"
        using False by simp
      show ?thesis
      proof (cases "BeamRepeatThreshold st < c")
        case quiet: False
        then have le: "c \<le> BeamRepeatThreshold st" by simp
        have t: "hb_loop same blank st (take a points) i c bi hot =
                 hb_loop same blank st (take a points) (i + 1) 0 [] hot"
          using it stop_take le by (rule hb_loop_quiet)
        have f: "hb_loop same blank st points i c bi hot =
                 hb_loop same blank st points (i + 1) 0 [] hot"
          using i stop_full le by (rule hb_loop_quiet)
        have "hb_loop same blank st points (i + 1) 0 [] hot =
              hb_loop same blank st points a 0 [] out"
        proof (rule Suc.hyps(1) [OF d i1])
          show "\<forall>x \<in> set []. x < i + 1" by simp
          show "hb_loop same blank st (take a points) (i + 1) 0 [] hot = Some out"
            using t Suc.prems(3) by simp
        qed
        with f show ?thesis by simp
      next
        case emit: True
        show ?thesis
        proof (cases "bi = []")
          case True
          with hb_loop_undefined [OF it stop_take emit, of hot] Suc.prems(3)
          show ?thesis by simp
        next
          case ne: False
          then have "last bi \<in> set bi" by simp
          with Suc.prems(2) Suc.prems(1) have "last bi < a" by fastforce
          then have pt: "take a points ! last bi = points ! last bi" by simp
          let ?h = "hot @ hot_points (BeamIntensityCount st) (points ! last bi)"
          have t: "hb_loop same blank st (take a points) i c bi hot =
                   hb_loop same blank st (take a points) (i + 1) 0 [] ?h"
            using hb_loop_emit [OF it stop_take emit ne, of hot] pt by simp
          have f: "hb_loop same blank st points i c bi hot =
                   hb_loop same blank st points (i + 1) 0 [] ?h"
            using i stop_full emit ne by (rule hb_loop_emit)
          have "hb_loop same blank st points (i + 1) 0 [] ?h =
                hb_loop same blank st points a 0 [] out"
          proof (rule Suc.hyps(1) [OF d i1])
            show "\<forall>x \<in> set []. x < i + 1" by simp
            show "hb_loop same blank st (take a points) (i + 1) 0 [] ?h = Some out"
              using t Suc.prems(3) by simp
          qed
          with f show ?thesis by simp
        qed
      qed
    qed
  qed
qed

lemma stationary_pair_drop:
  "d \<le> length points \<Longrightarrow> 1 \<le> i \<Longrightarrow>
   stationary_pair same blank (drop d points) i = stationary_pair same blank points (i + d)"
proof -
  assume d: "d \<le> length points" and i: "1 \<le> i"
  from i have "d + (i - 1) = i + d - 1" by simp
  with d show ?thesis by (simp add: stationary_pair_def add.commute)
qed

lemma hb_loop_drop:
  assumes d: "d \<le> length points"
  shows "1 \<le> i \<Longrightarrow>
         hb_loop same blank st (drop d points) i c bi hot =
         hb_loop same blank st points (i + d) c (map (\<lambda>x. x + d) bi) hot"
proof (induction "length points - d - i" arbitrary: i c bi hot)
  case 0
  then have "length (drop d points) \<le> i" and "length points \<le> i + d" by simp_all
  then show ?case by (simp only: hb_loop_end)
next
  case (Suc m)
  from Suc.hyps(2) have id: "i < length (drop d points)" and i: "i + d < length points"
    by simp_all
  from Suc.hyps(2) have m: "m = length points - d - (i + 1)" by simp
  have st: "stationary_pair same blank (drop d points) i =
            stationary_pair same blank points (i + d)"
    using d Suc.prems by (rule stationary_pair_drop)
  have lastidx: "(i = length (drop d points) - 1) = (i + d = length points - 1)"
    using i by auto
  show ?case
  proof (cases "stationary_pair same blank points (i + d) \<and> i + d < length points - 1")
    case True
    then have "i + d < length points - 1" by simp
    then have c1: "i < length (drop d points) - 1" by auto
    have "hb_loop same blank st (drop d points) i c bi hot =
          hb_loop same blank st (drop d points) (i + 1) (c + 1) (bi @ [i - 1]) hot"
      using c1 True st by (simp add: hb_loop_count)
    also have "\<dots> = hb_loop same blank st points ((i + 1) + d) (c + 1)
                       (map (\<lambda>x. x + d) (bi @ [i - 1])) hot"
      by (rule Suc.hyps(1) [OF m]) simp
    also have "map (\<lambda>x. x + d) (bi @ [i - 1]) = map (\<lambda>x. x + d) bi @ [(i + d) - 1]"
      using Suc.prems by simp
    also have "hb_loop same blank st points ((i + 1) + d) (c + 1)
                 (map (\<lambda>x. x + d) bi @ [(i + d) - 1]) hot =
               hb_loop same blank st points (i + d) c (map (\<lambda>x. x + d) bi) hot"
      using True hb_loop_count [of "i + d" points same blank st c "map (\<lambda>x. x + d) bi" hot]
      by simp
    finally show ?thesis .
  next
    case False
    then have stop_full: "\<not> stationary_pair same blank points (i + d) \<or>
                          i + d = length points - 1"
      using i by auto
    then have stop_drop: "\<not> stationary_pair same blank (drop d points) i \<or>
                          i = length (drop d points) - 1"
      using st lastidx by simp
    show ?thesis
    proof (cases "BeamRepeatThreshold st < c")
      case quiet: False
      then have le: "c \<le> BeamRepeatThreshold st" by simp
      have "hb_loop same blank st (drop d points) i c bi hot =
            hb_loop same blank st (drop d points) (i + 1) 0 [] hot"
        using id stop_drop le by (rule hb_loop_quiet)
      also have "\<dots> = hb_loop same blank st points ((i + 1) + d) 0 (map (\<lambda>x. x + d) []) hot"
        by (rule Suc.hyps(1) [OF m]) simp
      also have "\<dots> = hb_loop same blank st points (i + d) c (map (\<lambda>x. x + d) bi) hot"
        using hb_loop_quiet [OF i stop_full le, of "map (\<lambda>x. x + d) bi" hot] by simp
      finally show ?thesis .
    next
      case emit: True
      show ?thesis
      proof (cases "bi = []")
        case True
        with hb_loop_undefined [OF id stop_drop emit, of hot]
             hb_loop_undefined [OF i stop_full emit, of hot]
        show ?thesis by simp
      next
        case ne: False
        then have ne': "map (\<lambda>x. x + d) bi \<noteq> []" by simp
        have pt: "drop d points ! last bi = points ! last (map (\<lambda>x. x + d) bi)"
          using d ne by (simp add: last_map add.commute)
        let ?h = "hot @ hot_points (BeamIntensityCount st)
                          (points ! last (map (\<lambda>x. x + d) bi))"
        have "hb_loop same blank st (drop d points) i c bi hot =
              hb_loop same blank st (drop d points) (i + 1) 0 [] ?h"
          using hb_loop_emit [OF id stop_drop emit ne, of hot] pt by simp
        also have "\<dots> = hb_loop same blank st points ((i + 1) + d) 0 (map (\<lambda>x. x + d) []) ?h"
          by (rule Suc.hyps(1) [OF m]) simp
        also have "\<dots> = hb_loop same blank st points (i + d) c (map (\<lambda>x. x + d) bi) hot"
          using hb_loop_emit [OF i stop_full emit ne', of hot] by simp
        finally show ?thesis .
      qed
    qed
  qed
qed

lemma GenerateHotBeams_prefix:
  assumes a: "1 \<le> a" "a \<le> length points"
    and stop: "\<not> stationary_pair same blank points (a - 1) \<or> a = 1 \<or> a = length points"
    and pre: "GenerateHotBeams same blank st (take a points) = Some pre"
  shows "hb_loop same blank st points 1 0 [] [] = hb_loop same blank st points a 0 [] pre"
proof (cases "a = 1")
  case True
  with pre a show ?thesis by (simp add: GenerateHotBeams_def)
next
  case False
  with a have a2: "1 < a" by simp
  with a pre have "hb_loop same blank st (take a points) 1 0 [] [] = Some pre"
    by (simp add: GenerateHotBeams_def)
  moreover from stop False
  have "\<not> stationary_pair same blank points (a - 1) \<or> a = length points" by simp
  ultimately show ?thesis
    using hb_loop_take [OF a(2), of same blank 1 "[]" st 0 "[]" pre] a2 by simp
qed

lemma GenerateHotBeams_suffix:
  assumes d: "d < length points"
    and post: "GenerateHotBeams same blank st (drop d points) = Some post"
  shows "hb_loop same blank st points (d + 1) 0 [] hot = Some (hot @ post)"
proof (cases "length points - d < 2")
  case True
  with d have "length points \<le> d + 1" by simp
  moreover from True post have "post = []" by (simp add: GenerateHotBeams_def)
  ultimately show ?thesis by (simp add: hb_loop_end)
next
  case False
  with post have "hb_loop same blank st (drop d points) 1 0 [] [] = Some post"
    by (simp add: GenerateHotBeams_def)
  moreover from d have "d \<le> length points" by simp
  ultimately have "hb_loop same blank st points (1 + d) 0 [] [] = Some post"
    using hb_loop_drop [of d points 1 same blank st 0 "[]" "[]"] by simp
  then show ?thesis
    using hb_loop_acc [of same blank st points "d + 1" 0 "[]" hot] by simp
qed

lemma hot_level_mono:
  assumes n: "1 \<le> n" and jk: "j \<le> k"
  shows "hot_level n j \<le> hot_level n k"
proof (cases "n = 1")
  case True
  then show ?thesis by (simp add: hot_level_def)
next
  case False
  with n have pos: "0 < real_of_int (n - 1)" by simp
  with jk have "real_of_int j / real_of_int (n - 1) \<le> real_of_int k / real_of_int (n - 1)"
    by (simp add: divide_right_mono)
  then have "max (1 / 10000) (real_of_int j / real_of_int (n - 1)) \<le>
             max (1 / 10000) (real_of_int k / real_of_int (n - 1))"
    by (intro max.mono) simp_all
  moreover from False have "n - 1 \<noteq> 0" by simp
  ultimately show ?thesis by (simp only: hot_level_def if_False)
qed


lemma hot_points_sorted: "sorted_wrt (\<le>) (map Z (hot_points n p))"
proof (cases "1 \<le> n")
  case True
  have "sorted_wrt (<) [0..n - 1]" by simp
  then have "sorted_wrt (\<lambda>j k. hot_level n j \<le> hot_level n k) [0..n - 1]"
    by (rule sorted_wrt_mono_rel [rotated]) (simp add: hot_level_mono [OF True])
  then show ?thesis by (simp add: Z_hot_points sorted_wrt_map)
next
  case False
  then show ?thesis by (simp add: hot_points_def)
qed


lemma hot_points_nth:
  "0 \<le> j \<Longrightarrow> j < n \<Longrightarrow> hot_points n p ! nat j = p\<lparr>Z := hot_level n j\<rparr>"
  by (simp add: hot_points_def)


lemma hb_run_general:
  assumes T: "0 \<le> BeamRepeatThreshold st"
    and a: "1 \<le> a" and e: "a + k < length points"
    and left: "a = 1 \<or> \<not> stationary_pair same blank points (a - 1)"
    and run: "\<forall>j. a \<le> j \<and> j < a + k \<longrightarrow> stationary_pair same blank points j"
    and stop: "\<not> stationary_pair same blank points (a + k) \<or> a + k = length points - 1"
    and pre: "GenerateHotBeams same blank st (take a points) = Some pre"
    and post: "GenerateHotBeams same blank st (drop (a + k) points) = Some post"
  shows "GenerateHotBeams same blank st points =
         Some (pre @ (if BeamRepeatThreshold st < int k
                      then hot_points (BeamIntensityCount st) (points ! (a + k - 2)) else [])
                   @ post)"
proof -
  let ?seg = "if BeamRepeatThreshold st < int k
              then hot_points (BeamIntensityCount st) (points ! (a + k - 2)) else []"
  from a e have n: "\<not> length points < 2" and al: "a \<le> length points" by simp_all
  from left have stopa: "\<not> stationary_pair same blank points (a - 1) \<or> a = 1 \<or>
                          a = length points" by auto
  have "hb_loop same blank st points 1 0 [] [] = hb_loop same blank st points a 0 [] pre"
    using a al stopa pre by (rule GenerateHotBeams_prefix)
  also have "\<dots> = hb_loop same blank st points (a + k + 1) 0 []
                     (if BeamRepeatThreshold st < int k
                      then pre @ hot_points (BeamIntensityCount st) (points ! (a + k - 2))
                      else pre)"
    using T e run stop by (rule hb_loop_block)
  also have "\<dots> = hb_loop same blank st points (a + k + 1) 0 [] (pre @ ?seg)"
    by simp
  also have "\<dots> = Some ((pre @ ?seg) @ post)"
    using e post by (rule GenerateHotBeams_suffix)
  finally show ?thesis using n by (simp add: GenerateHotBeams_def)
qed

subsection \<open>What a successful parse returns\<close>

lemma ParsePacket_Some:
  assumes "ParsePacket proto len dev = Some (deviceID, points)"
    and "m_GetData proto = Some getData"
    and "getData dev = (Some floatData, pointCount)"
  shows "deviceID = dev \<and> 0 \<le> dev \<and> dev < 4 \<and> 0 < pointCount \<and>
         points = map (\<lambda>k. out_point floatData k (int (Suc k) < pointCount)) [0..<nat pointCount]"
proof -
  have "pp_loop floatData pointCount 0 [] =
        map (\<lambda>k. out_point floatData k (int (Suc k) < pointCount)) [0..<nat pointCount]"
    by (rule pp_loop_closed) simp_all
  with assms show ?thesis
    by (auto simp add: ParsePacket_def split: if_splits)
qed

lemma decode_sample_XY:
  "X (decode_sample floatData i) = floatData ! (i * 6)"
  "Y (decode_sample floatData i) = - floatData ! (i * 6 + 1)"
  by (simp_all add: decode_sample_def Let_def split: prod.splits)

lemma ParsePacket_range:
  "ParsePacket proto len dev = Some (deviceID, points) \<Longrightarrow> deviceID = dev \<and> 0 \<le> dev \<and> dev < 4"
  by (auto simp add: ParsePacket_def split: if_splits prod.splits)

lemma ParsePacket_outside:
  "dev < 0 \<or> 4 \<le> dev \<Longrightarrow> ParsePacket proto len dev = None"
  by (auto simp add: ParsePacket_def)

subsection \<open>What a tick writes\<close>

lemma UpdatePointList_frame:
  "UpdatePointList same blank src en = Some src' \<Longrightarrow>
   m_RawPoints src' = m_RawPoints src \<and> m_Settings src' = m_Settings src \<and>
   m_EnableBeamBrush src' = m_EnableBeamBrush src \<and> m_DeviceID src' = m_DeviceID src"
  by (auto simp add: UpdatePointList_def Let_def split: if_splits option.splits prod.splits)

lemma UpdatePointList_defined:
  "0 \<le> BeamRepeatThreshold (m_Settings src) \<Longrightarrow>
   \<exists>src'. UpdatePointList same blank src en = Some src'"
  using GenerateHotBeams_defined [of "m_Settings src" same blank "m_RawPoints src"]
  by (auto simp add: UpdatePointList_def Let_def split: if_splits option.splits prod.splits)

lemma UpdatePointList_outputs_only:
  "UpdatePointList same blank
     (src\<lparr>m_ProcessedPoints := a, m_BeamPoints := b, m_HotBeamPoints := c\<rparr>) en =
   UpdatePointList same blank src en"
  by (auto simp add: UpdatePointList_def Let_def split: if_splits option.splits prod.splits)


lemma UpdatePointList_writes:
  "UpdatePointList same blank src en = Some src' \<Longrightarrow>
   src' = src\<lparr>m_ProcessedPoints := m_ProcessedPoints src',
              m_BeamPoints := m_BeamPoints src',
              m_HotBeamPoints := m_HotBeamPoints src'\<rparr>"
  by (auto simp add: UpdatePointList_def Let_def split: if_splits option.splits prod.splits)

subsection \<open>The concrete inputs, evaluated\<close>

lemma ex_parse0: "ParsePacket (ex_proto ex_wire 3) 1 0 = Some (0, ex_decoded)"
  by (simp add: ParsePacket_def ex_proto_def ex_wire_def pp_loop.simps decode_sample_def Let_def
      ex_decoded_def)

lemma ex_stationary:
  "stationary_pair IsSamePosition IsBlankPoint [ex_p, ex_p, ex_q, ex_q, ex_p] 3"
  "\<not> stationary_pair IsSamePosition IsBlankPoint [ex_p, ex_p, ex_q, ex_q, ex_p] 2"
  "\<not> stationary_pair IsSamePosition IsBlankPoint [ex_p, ex_p, ex_q, ex_q, ex_p] 4"
  "stationary_pair IsSamePosition IsBlankPoint [ex_p, ex_p, ex_p, ex_q, ex_q, ex_q, ex_p] 4"
  "stationary_pair IsSamePosition IsBlankPoint [ex_p, ex_p, ex_p, ex_q, ex_q, ex_q, ex_p] 5"
  "\<not> stationary_pair IsSamePosition IsBlankPoint [ex_p, ex_p, ex_p, ex_q, ex_q, ex_q, ex_p] 3"
  "\<not> stationary_pair IsSamePosition IsBlankPoint [ex_p, ex_p, ex_p, ex_q, ex_q, ex_q, ex_p] 6"
  "stationary_pair IsSamePosition IsBlankPoint [ex_p, ex_p, ex_p, ex_q, ex_q, ex_q, ex_q] 4"
  "stationary_pair IsSamePosition IsBlankPoint [ex_p, ex_p, ex_p, ex_q, ex_q, ex_q, ex_q] 5"
  "stationary_pair IsSamePosition IsBlankPoint [ex_p, ex_p, ex_p, ex_q, ex_q, ex_q, ex_q] 6"
  "\<not> stationary_pair IsSamePosition IsBlankPoint [ex_p, ex_p, ex_p, ex_q, ex_q, ex_q, ex_q] 3"
  by (simp_all add: stationary_pair_def IsSamePosition_def IsBlankPoint_def ex_p_def ex_q_def)

lemma ex_hot_parts:
  "GenerateHotBeams IsSamePosition IsBlankPoint (ex_settings 1 3) [ex_p, ex_p, ex_q] = Some []"
  "GenerateHotBeams IsSamePosition IsBlankPoint (ex_settings 1 3) [ex_p] = Some []"
  "GenerateHotBeams IsSamePosition IsBlankPoint (ex_settings 1 3) [] = Some []"
  "GenerateHotBeams IsSamePosition IsBlankPoint (ex_settings 1 3) [ex_p, ex_p, ex_p, ex_q] =
     Some [ex_p\<lparr>Z := 1 / 10000\<rparr>, ex_p\<lparr>Z := 1 / 2\<rparr>, ex_p\<lparr>Z := 1\<rparr>]"
  by (simp_all add: GenerateHotBeams_def hb_loop.simps IsSamePosition_def IsBlankPoint_def
      ex_p_def ex_q_def ex_settings_def hot_points_def hot_level_def upto.simps)

lemma ex_device5: "ExtractDeviceID (Some \<lparr>s_b1 = 239, s_b2 = 255, s_b3 = 5, s_b4 = 12\<rparr>) = 5"
    by (simp add: ExtractDeviceID_def s_addr_is_zero_def)
lemma ex_device2: "ExtractDeviceID (Some \<lparr>s_b1 = 239, s_b2 = 255, s_b3 = 2, s_b4 = 12\<rparr>) = 2"
    by (simp add: ExtractDeviceID_def s_addr_is_zero_def)
lemma ex_parse2: "ParsePacket (ex_proto ex_wire 3) 100 2 = Some (2, pp_loop ex_wire 3 0 [])"
  by (simp add: ParsePacket_def ex_proto_def)
lemma ex_receive2: "ReceiveThread_packet (ex_proto ex_wire 3)
     (Some \<lparr>s_b1 = 239, s_b2 = 255, s_b3 = 2, s_b4 = 12\<rparr>) 100 =
     Some (2, pp_loop ex_wire 3 0 [])"
proof -
  have "m_DataCallback (ex_proto ex_wire 3)" by (simp add: ex_proto_def)
  then show ?thesis by (simp add: ReceiveThread_packet_def ex_device2 ex_parse2)
qed

section \<open>The claims\<close>

text \<open>
  Claim C1, as amended. In any point list take a maximal run of \<open>L\<close> stationary pairs, the
  pairs \<open>a, \<dots>, a + L - 1\<close>: the pair before it is not stationary (or it starts the list)
  and the pair after it is not stationary (or it ends the list). Let \<open>pre\<close> be what hot-beam
  detection emits on the points up to the run's first point, and \<open>post\<close> what it emits on
  the points from the run's last point on. With a threshold \<^verbatim>\<open>BeamRepeatThreshold\<close> \<open>\<ge> 0\<close>:
  if \<open>L\<close> equals the threshold, the whole list emits \<open>pre\<close> followed by \<open>post\<close>, so the run
  adds no point. If \<open>L\<close> is the threshold plus one and the run stops before the end of the
  list, the whole list emits \<open>pre\<close>, then \<open>max 0 BeamIntensityCount\<close> points, then \<open>post\<close>;
  each of these points is a copy of the point at index \<open>a + L - 2\<close> with another marker;
  with at least two levels the markers never decrease and the last one is 1, and with at
  most 10000 levels they are strictly increasing. (A single level is left out: there the
  program divides zero by zero.)
\<close>

theorem hot_beam_threshold:
  assumes T: "0 \<le> BeamRepeatThreshold st"
    and a: "1 \<le> a" and e: "a + L \<le> length points"
    and left: "a = 1 \<or> \<not> stationary_pair same blank points (a - 1)"
    and run: "\<forall>j. a \<le> j \<and> j < a + L \<longrightarrow> stationary_pair same blank points j"
    and right: "a + L = length points \<or> \<not> stationary_pair same blank points (a + L)"
  shows "\<exists>pre post.
           GenerateHotBeams same blank st (take a points) = Some pre \<and>
           GenerateHotBeams same blank st (drop (a + L) points) = Some post \<and>
           (int L = BeamRepeatThreshold st \<longrightarrow>
              GenerateHotBeams same blank st points = Some (pre @ post)) \<and>
           (int L = BeamRepeatThreshold st + 1 \<and> a + L < length points \<longrightarrow>
              (\<exists>hot. GenerateHotBeams same blank st points = Some (pre @ hot @ post) \<and>
                 int (length hot) = max 0 (BeamIntensityCount st) \<and>
                 (\<forall>h \<in> set hot. h = (points ! (a + L - 2))\<lparr>Z := Z h\<rparr>) \<and>
                 (2 \<le> BeamIntensityCount st \<longrightarrow>
                    sorted_wrt (\<le>) (map Z hot) \<and> Z (last hot) = 1) \<and>
                 (2 \<le> BeamIntensityCount st \<and> BeamIntensityCount st \<le> 10000 \<longrightarrow>
                    sorted_wrt (<) (map Z hot))))"
proof -
  obtain pre where pre: "GenerateHotBeams same blank st (take a points) = Some pre"
    using GenerateHotBeams_defined [OF T] by blast
  obtain post where post: "GenerateHotBeams same blank st (drop (a + L) points) = Some post"
    using GenerateHotBeams_defined [OF T] by blast
  have short: "GenerateHotBeams same blank st points = Some (pre @ post)"
    if L: "int L = BeamRepeatThreshold st"
  proof (cases "a + L < length points")
    case True
    with right have "\<not> stationary_pair same blank points (a + L) \<or> a + L = length points - 1"
      by simp
    from hb_run_general [OF T a True left run this pre post] L show ?thesis by simp
  next
    case False
    with e have full: "a + L = length points" by simp
    with post have p0: "post = []" by (simp add: GenerateHotBeams_def)
    show ?thesis
    proof (cases "L = 0")
      case True
      with full pre p0 show ?thesis by simp
    next
      case False
      define k where "k = L - 1"
      with False full have k: "a + k < length points" "a + k = length points - 1" "k < L"
        by simp_all
      then have "length (drop (a + k) points) < 2" by simp
      then have pk: "GenerateHotBeams same blank st (drop (a + k) points) = Some []"
        by (simp add: GenerateHotBeams_def)
      have runk: "\<forall>j. a \<le> j \<and> j < a + k \<longrightarrow> stationary_pair same blank points j"
        using run k by simp
      have "\<not> stationary_pair same blank points (a + k) \<or> a + k = length points - 1"
        using k by simp
      from hb_run_general [OF T a k(1) left runk this pre pk] L k p0
      show ?thesis by simp
    qed
  qed
  have long: "\<exists>hot. GenerateHotBeams same blank st points = Some (pre @ hot @ post) \<and>
                 int (length hot) = max 0 (BeamIntensityCount st) \<and>
                 (\<forall>h \<in> set hot. h = (points ! (a + L - 2))\<lparr>Z := Z h\<rparr>) \<and>
                 (2 \<le> BeamIntensityCount st \<longrightarrow>
                    sorted_wrt (\<le>) (map Z hot) \<and> Z (last hot) = 1) \<and>
                 (2 \<le> BeamIntensityCount st \<and> BeamIntensityCount st \<le> 10000 \<longrightarrow>
                    sorted_wrt (<) (map Z hot))"
    if L: "int L = BeamRepeatThreshold st + 1" and e': "a + L < length points"
  proof -
    let ?hot = "hot_points (BeamIntensityCount st) (points ! (a + L - 2))"
    from right e'
    have "\<not> stationary_pair same blank points (a + L) \<or> a + L = length points - 1"
      by simp
    from hb_run_general [OF T a e' left run this pre post] L
    have g: "GenerateHotBeams same blank st points = Some (pre @ ?hot @ post)" by simp
    have "int (length ?hot) = max 0 (BeamIntensityCount st)"
      by (simp add: length_hot_points)
    moreover have "\<forall>h \<in> set ?hot. h = (points ! (a + L - 2))\<lparr>Z := Z h\<rparr>"
      using hot_points_copy by blast
    moreover have "2 \<le> BeamIntensityCount st \<longrightarrow>
                   sorted_wrt (\<le>) (map Z ?hot) \<and> Z (last ?hot) = 1"
      by (simp add: hot_points_sorted hot_points_last)
    moreover have "2 \<le> BeamIntensityCount st \<and> BeamIntensityCount st \<le> 10000 \<longrightarrow>
                   sorted_wrt (<) (map Z ?hot)"
      by (simp add: hot_points_increasing)
    ultimately show ?thesis using g by blast
  qed
  from pre post short long show ?thesis by blast
qed

text \<open>
  The statement at threshold 1 and three levels. In \<open>[p, p, q, q, p]\<close> the run of one pair
  at index 3 adds nothing to the nothing its neighbours emit. In \<open>[p, p, p, q, q, q, p]\<close>
  the run of two pairs at indices 4 and 5 adds three copies of \<open>q\<close> to the three copies of
  \<open>p\<close> that the first run emits.
\<close>

theorem hot_beam_threshold_witness:
  "GenerateHotBeams IsSamePosition IsBlankPoint (ex_settings 1 3)
     [ex_p, ex_p, ex_q, ex_q, ex_p] = Some [] \<and>
   (\<exists>hot. GenerateHotBeams IsSamePosition IsBlankPoint (ex_settings 1 3)
            [ex_p, ex_p, ex_p, ex_q, ex_q, ex_q, ex_p] =
            Some ([ex_p\<lparr>Z := 1 / 10000\<rparr>, ex_p\<lparr>Z := 1 / 2\<rparr>, ex_p\<lparr>Z := 1\<rparr>] @ hot) \<and>
          length hot = 3 \<and> (\<forall>h \<in> set hot. h = ex_q\<lparr>Z := Z h\<rparr>) \<and>
          sorted_wrt (<) (map Z hot) \<and> Z (last hot) = 1)"
proof -
  let ?st = "ex_settings 1 3"
  let ?l5 = "[ex_p, ex_p, ex_q, ex_q, ex_p]"
  let ?l7 = "[ex_p, ex_p, ex_p, ex_q, ex_q, ex_q, ex_p]"
  have T: "0 \<le> BeamRepeatThreshold ?st" by (simp add: ex_settings_def)
  have run5: "\<forall>j. 3 \<le> j \<and> j < 3 + 1 \<longrightarrow>
                stationary_pair IsSamePosition IsBlankPoint ?l5 j"
  proof (intro allI impI)
    fix j :: nat
    assume "3 \<le> j \<and> j < 3 + 1"
    then have "j = 3" by arith
    with ex_stationary(1) show "stationary_pair IsSamePosition IsBlankPoint ?l5 j" by simp
  qed
  have run7: "\<forall>j. 4 \<le> j \<and> j < 4 + 2 \<longrightarrow>
                stationary_pair IsSamePosition IsBlankPoint ?l7 j"
  proof (intro allI impI)
    fix j :: nat
    assume "4 \<le> j \<and> j < 4 + 2"
    then have "j = 4 \<or> j = 5" by arith
    with ex_stationary(4,5) show "stationary_pair IsSamePosition IsBlankPoint ?l7 j" by auto
  qed
  have a: "GenerateHotBeams IsSamePosition IsBlankPoint ?st ?l5 = Some []"
    using hot_beam_threshold [of ?st 3 1 ?l5 IsSamePosition IsBlankPoint, OF T _ _ _ run5]
          ex_stationary(2,3) ex_hot_parts(1,2)
    by (simp add: ex_settings_def)
  have b: "\<exists>hot. GenerateHotBeams IsSamePosition IsBlankPoint ?st ?l7 =
            Some ([ex_p\<lparr>Z := 1 / 10000\<rparr>, ex_p\<lparr>Z := 1 / 2\<rparr>, ex_p\<lparr>Z := 1\<rparr>] @ hot) \<and>
          length hot = 3 \<and> (\<forall>h \<in> set hot. h = ex_q\<lparr>Z := Z h\<rparr>) \<and>
          sorted_wrt (<) (map Z hot) \<and> Z (last hot) = 1"
    using hot_beam_threshold [of ?st 4 2 ?l7 IsSamePosition IsBlankPoint, OF T _ _ _ run7]
          ex_stationary(6,7) ex_hot_parts(2,4)
    by (simp add: ex_settings_def, blast)
  from a b show ?thesis by simp
qed

text \<open>
  Claim C1 as it is written fails with 10001 levels: at threshold 0 a run of one
  stationary pair that stops before the list end produces 10001 points, and the markers
  of the first two are both 0.0001, the floor and \<open>1 / 10000\<close>, so the markers are not
  strictly increasing.
\<close>

theorem hot_beam_floor_tie_counterexample:
  "stationary_pair IsSamePosition IsBlankPoint [ex_p, ex_p, ex_q] 1 \<and>
   \<not> stationary_pair IsSamePosition IsBlankPoint [ex_p, ex_p, ex_q] 2 \<and>
   GenerateHotBeams IsSamePosition IsBlankPoint (ex_settings 0 10001) [ex_p, ex_p, ex_q] =
     Some (hot_points 10001 ex_p) \<and>
   length (hot_points 10001 ex_p) = 10001 \<and>
   Z (hot_points 10001 ex_p ! 0) = 1 / 10000 \<and>
   Z (hot_points 10001 ex_p ! 1) = 1 / 10000 \<and>
   \<not> sorted_wrt (<) (map Z (hot_points 10001 ex_p))"
proof -
  have s: "stationary_pair IsSamePosition IsBlankPoint [ex_p, ex_p, ex_q] 1 \<and>
           \<not> stationary_pair IsSamePosition IsBlankPoint [ex_p, ex_p, ex_q] 2"
    by (simp add: stationary_pair_def IsSamePosition_def IsBlankPoint_def ex_p_def ex_q_def)
  have g: "GenerateHotBeams IsSamePosition IsBlankPoint (ex_settings 0 10001)
             [ex_p, ex_p, ex_q] = Some (hot_points 10001 ex_p)"
    by (simp add: GenerateHotBeams_def hb_loop.simps IsSamePosition_def IsBlankPoint_def
        ex_p_def ex_q_def ex_settings_def)
  have len: "length (hot_points 10001 ex_p) = 10001"
    by (simp add: length_hot_points)
  have z0: "Z (hot_points 10001 ex_p ! 0) = 1 / 10000"
    using hot_points_nth [of 0 10001 ex_p] by (simp add: hot_level_def)
  have z1: "Z (hot_points 10001 ex_p ! 1) = 1 / 10000"
    using hot_points_nth [of 1 10001 ex_p] by (simp add: hot_level_def)
  have ns: "\<not> sorted_wrt (<) (map Z (hot_points 10001 ex_p))"
  proof
    assume "sorted_wrt (<) (map Z (hot_points 10001 ex_p))"
    then have "map Z (hot_points 10001 ex_p) ! 0 < map Z (hot_points 10001 ex_p) ! 1"
      by (rule sorted_wrt_nth_less) (simp_all add: len)
    with z0 z1 len show False by simp
  qed
  from s g len z0 z1 ns show ?thesis by simp
qed




text \<open>
  Claim C3, as amended. For sample \<open>i\<close> of a decoder array that holds it, with colour
  channels \<open>r\<close>, \<open>g\<close>, \<open>b\<close> and focus value \<open>focus\<close>: the three channels are divided by 255 exactly when one of them
  exceeds 1, and are then clamped to \<open>[0, 1]\<close>; so \<open>r = 200\<close> with the others at most 1
  has all three divided by 255, and \<open>r = g = b = 0.5\<close> leaves the colours as they are. The
  focus value takes no part in that test: it is always clamped to \<open>[0, 255]\<close> and divided
  by 255.
\<close>

theorem decode_sample_normalization:
  assumes "i * 6 + 5 < length floatData"
    and "floatData ! (i * 6 + 2) = focus"
    and "floatData ! (i * 6 + 3) = r"
    and "floatData ! (i * 6 + 4) = g"
    and "floatData ! (i * 6 + 5) = b"
  shows "(r > 1 \<or> g > 1 \<or> b > 1 \<longrightarrow>
            R (decode_sample floatData i) = max 0 (min 1 (r / 255)) \<and>
            G (decode_sample floatData i) = max 0 (min 1 (g / 255)) \<and>
            B (decode_sample floatData i) = max 0 (min 1 (b / 255))) \<and>
         (\<not> (r > 1 \<or> g > 1 \<or> b > 1) \<longrightarrow>
            R (decode_sample floatData i) = max 0 r \<and>
            G (decode_sample floatData i) = max 0 g \<and>
            B (decode_sample floatData i) = max 0 b) \<and>
         (r = 200 \<and> g \<le> 1 \<and> b \<le> 1 \<longrightarrow>
            R (decode_sample floatData i) = 200 / 255 \<and>
            G (decode_sample floatData i) = max 0 (g / 255) \<and>
            B (decode_sample floatData i) = max 0 (b / 255)) \<and>
         (r = 1 / 2 \<and> g = 1 / 2 \<and> b = 1 / 2 \<longrightarrow>
            R (decode_sample floatData i) = 1 / 2 \<and>
            G (decode_sample floatData i) = 1 / 2 \<and>
            B (decode_sample floatData i) = 1 / 2) \<and>
         Focus (decode_sample floatData i) = max 0 (min 255 focus) / 255 \<and>
         (0 \<le> focus \<and> focus \<le> 1 \<longrightarrow> Focus (decode_sample floatData i) = focus / 255)"
  using assms by (auto simp add: decode_sample_def Let_def max_def min_def)

text \<open>The statement on the samples \<open>(200, 1, 0.5)\<close> and \<open>(0.5, 0.5, 0.5)\<close>, both with focus 0.5.\<close>

theorem decode_sample_normalization_witness:
  "R (decode_sample [0, 0, 1 / 2, 200, 1, 1 / 2] 0) = 200 / 255 \<and>
   G (decode_sample [0, 0, 1 / 2, 200, 1, 1 / 2] 0) = 1 / 255 \<and>
   B (decode_sample [0, 0, 1 / 2, 200, 1, 1 / 2] 0) = 1 / 510 \<and>
   Focus (decode_sample [0, 0, 1 / 2, 200, 1, 1 / 2] 0) = 1 / 510 \<and>
   R (decode_sample [0, 0, 1 / 2, 1 / 2, 1 / 2, 1 / 2] 0) = 1 / 2 \<and>
   G (decode_sample [0, 0, 1 / 2, 1 / 2, 1 / 2, 1 / 2] 0) = 1 / 2 \<and>
   B (decode_sample [0, 0, 1 / 2, 1 / 2, 1 / 2, 1 / 2] 0) = 1 / 2 \<and>
   Focus (decode_sample [0, 0, 1 / 2, 1 / 2, 1 / 2, 1 / 2] 0) = 1 / 510"
  using decode_sample_normalization
          [of 0 "[0, 0, 1 / 2, 200, 1, 1 / 2]" "1 / 2" 200 1 "1 / 2"]
        decode_sample_normalization
          [of 0 "[0, 0, 1 / 2, 1 / 2, 1 / 2, 1 / 2]" "1 / 2" "1 / 2" "1 / 2" "1 / 2"]
  by simp

text \<open>
  Claim C3 as it is written fails on the sample with \<open>R = G = B = 0.5\<close> and focus 0.5: no
  channel exceeds 1, the colours pass unscaled, and the focus comes out as \<open>0.5 / 255\<close>.
\<close>

theorem focus_always_scaled_counterexample:
  "\<not> ((1 / 2 :: real) > 1) \<and>
   R (decode_sample [0, 0, 1 / 2, 1 / 2, 1 / 2, 1 / 2] 0) = 1 / 2 \<and>
   Focus (decode_sample [0, 0, 1 / 2, 1 / 2, 1 / 2, 1 / 2] 0) = 1 / 510 \<and>
   Focus (decode_sample [0, 0, 1 / 2, 1 / 2, 1 / 2, 1 / 2] 0) \<noteq> 1 / 2"
  by (simp add: decode_sample_def Let_def)

text \<open>
  Claim C4. When \<^verbatim>\<open>ParsePacket\<close> succeeds on a decoder answer of \<open>pointCount\<close> samples
  (an array of at least \<open>6 * pointCount\<close> floats), it returns \<open>pointCount\<close> points; point \<open>i\<close> has the X of sample \<open>i\<close>, the negated Y of sample
  \<open>i\<close>, marker 0, and the colour and focus decoded with sample \<open>i + 1\<close>; the last point has
  colour and focus 0. The three wire samples of the specification give the colours
  \<open>(0, 1, 0)\<close>, \<open>(1, 0, 0)\<close> and \<open>(0, 0, 0)\<close>.
\<close>

theorem ParsePacket_color_lag:
  "(ParsePacket proto len dev = Some (deviceID, points) \<and>
    m_GetData proto = Some getData \<and> getData dev = (Some floatData, pointCount) \<and>
    6 * nat pointCount \<le> length floatData \<longrightarrow>
      length points = nat pointCount \<and> 0 < pointCount \<and>
      (\<forall>i < nat pointCount.
          X (points ! i) = floatData ! (i * 6) \<and>
          Y (points ! i) = - floatData ! (i * 6 + 1) \<and>
          Z (points ! i) = 0 \<and>
          (Suc i < nat pointCount \<longrightarrow>
             R (points ! i) = R (decode_sample floatData (Suc i)) \<and>
             G (points ! i) = G (decode_sample floatData (Suc i)) \<and>
             B (points ! i) = B (decode_sample floatData (Suc i)) \<and>
             Focus (points ! i) = Focus (decode_sample floatData (Suc i))) \<and>
          (Suc i = nat pointCount \<longrightarrow>
             R (points ! i) = 0 \<and> G (points ! i) = 0 \<and> B (points ! i) = 0 \<and>
             Focus (points ! i) = 0))) \<and>
   ParsePacket (ex_proto ex_wire 3) 1 0 =
     Some (0, [\<lparr>X = 0, Y = 0, R = 0, G = 1, B = 0, Z = 0, Focus = 0\<rparr>,
               \<lparr>X = 10, Y = 0, R = 1, G = 0, B = 0, Z = 0, Focus = 0\<rparr>,
               \<lparr>X = 10, Y = - 10, R = 0, G = 0, B = 0, Z = 0, Focus = 0\<rparr>])"
proof (intro conjI impI)
  assume a: "ParsePacket proto len dev = Some (deviceID, points) \<and>
    m_GetData proto = Some getData \<and> getData dev = (Some floatData, pointCount) \<and>
    6 * nat pointCount \<le> length floatData"
  then have p: "points = map (\<lambda>k. out_point floatData k (int (Suc k) < pointCount))
                           [0..<nat pointCount]"
    and n: "0 < pointCount"
    using ParsePacket_Some [of proto len dev deviceID points getData floatData pointCount]
    by simp_all
  from p show "length points = nat pointCount" by simp
  from n show "0 < pointCount" .
  show "\<forall>i < nat pointCount.
          X (points ! i) = floatData ! (i * 6) \<and>
          Y (points ! i) = - floatData ! (i * 6 + 1) \<and>
          Z (points ! i) = 0 \<and>
          (Suc i < nat pointCount \<longrightarrow>
             R (points ! i) = R (decode_sample floatData (Suc i)) \<and>
             G (points ! i) = G (decode_sample floatData (Suc i)) \<and>
             B (points ! i) = B (decode_sample floatData (Suc i)) \<and>
             Focus (points ! i) = Focus (decode_sample floatData (Suc i))) \<and>
          (Suc i = nat pointCount \<longrightarrow>
             R (points ! i) = 0 \<and> G (points ! i) = 0 \<and> B (points ! i) = 0 \<and>
             Focus (points ! i) = 0)"
  proof (intro allI impI)
    fix i assume i: "i < nat pointCount"
    then have "points ! i = out_point floatData i (int (Suc i) < pointCount)"
      by (simp add: p)
    moreover have "(int (Suc i) < pointCount) = (Suc i < nat pointCount)"
      using n by linarith
    ultimately have "points ! i = out_point floatData i (Suc i < nat pointCount)"
      by simp
    then show "X (points ! i) = floatData ! (i * 6) \<and>
          Y (points ! i) = - floatData ! (i * 6 + 1) \<and>
          Z (points ! i) = 0 \<and>
          (Suc i < nat pointCount \<longrightarrow>
             R (points ! i) = R (decode_sample floatData (Suc i)) \<and>
             G (points ! i) = G (decode_sample floatData (Suc i)) \<and>
             B (points ! i) = B (decode_sample floatData (Suc i)) \<and>
             Focus (points ! i) = Focus (decode_sample floatData (Suc i))) \<and>
          (Suc i = nat pointCount \<longrightarrow>
             R (points ! i) = 0 \<and> G (points ! i) = 0 \<and> B (points ! i) = 0 \<and>
             Focus (points ! i) = 0)"
      by (simp add: out_point_def decode_sample_XY)
  qed
next
  show "ParsePacket (ex_proto ex_wire 3) 1 0 =
     Some (0, [\<lparr>X = 0, Y = 0, R = 0, G = 1, B = 0, Z = 0, Focus = 0\<rparr>,
               \<lparr>X = 10, Y = 0, R = 1, G = 0, B = 0, Z = 0, Focus = 0\<rparr>,
               \<lparr>X = 10, Y = - 10, R = 0, G = 0, B = 0, Z = 0, Focus = 0\<rparr>])"
    by (simp add: ParsePacket_def ex_proto_def ex_wire_def pp_loop.simps decode_sample_def Let_def)
qed

text \<open>The general part at the three wire samples of the specification.\<close>

theorem ParsePacket_color_lag_witness:
  "ParsePacket (ex_proto ex_wire 3) 1 0 = Some (0, ex_decoded) \<and>
   m_GetData (ex_proto ex_wire 3) = Some (\<lambda>device. (Some ex_wire, 3)) \<and>
   6 * nat 3 \<le> length ex_wire \<and>
   length ex_decoded = nat 3 \<and>
   Y (ex_decoded ! 2) = - ex_wire ! (2 * 6 + 1) \<and>
   G (ex_decoded ! 0) = G (decode_sample ex_wire (Suc 0)) \<and>
   R (ex_decoded ! 1) = R (decode_sample ex_wire (Suc 1)) \<and>
   R (ex_decoded ! 2) = 0 \<and> G (ex_decoded ! 2) = 0 \<and> B (ex_decoded ! 2) = 0 \<and>
   Focus (ex_decoded ! 2) = 0"
proof -
  have g: "m_GetData (ex_proto ex_wire 3) = Some (\<lambda>device. (Some ex_wire, 3))"
    by (simp add: ex_proto_def)
  have wl: "6 * nat 3 \<le> length ex_wire"
    by (simp add: ex_wire_def)
  have all: "\<forall>i < nat 3.
          X (ex_decoded ! i) = ex_wire ! (i * 6) \<and>
          Y (ex_decoded ! i) = - ex_wire ! (i * 6 + 1) \<and>
          Z (ex_decoded ! i) = 0 \<and>
          (Suc i < nat 3 \<longrightarrow>
             R (ex_decoded ! i) = R (decode_sample ex_wire (Suc i)) \<and>
             G (ex_decoded ! i) = G (decode_sample ex_wire (Suc i)) \<and>
             B (ex_decoded ! i) = B (decode_sample ex_wire (Suc i)) \<and>
             Focus (ex_decoded ! i) = Focus (decode_sample ex_wire (Suc i))) \<and>
          (Suc i = nat 3 \<longrightarrow>
             R (ex_decoded ! i) = 0 \<and> G (ex_decoded ! i) = 0 \<and> B (ex_decoded ! i) = 0 \<and>
             Focus (ex_decoded ! i) = 0)"
    and len: "length ex_decoded = nat 3"
    using ParsePacket_color_lag [of "ex_proto ex_wire 3" 1 0 0 ex_decoded
            "\<lambda>device. (Some ex_wire, 3)" ex_wire 3] ex_parse0 g wl
    by simp_all
  note i0 = all [THEN spec, of 0] and i1 = all [THEN spec, of 1] and i2 = all [THEN spec, of 2]
  from i2 have "Y (ex_decoded ! 2) = - ex_wire ! (2 * 6 + 1)"
    and "R (ex_decoded ! 2) = 0 \<and> G (ex_decoded ! 2) = 0 \<and> B (ex_decoded ! 2) = 0 \<and>
         Focus (ex_decoded ! 2) = 0"
    by simp_all
  moreover from i0 have "G (ex_decoded ! 0) = G (decode_sample ex_wire (Suc 0))"
    by simp
  moreover from i1 have "R (ex_decoded ! 1) = R (decode_sample ex_wire (Suc 1))"
    by simp
  ultimately have "Y (ex_decoded ! 2) = - ex_wire ! (2 * 6 + 1)"
    and "G (ex_decoded ! 0) = G (decode_sample ex_wire (Suc 0))"
    and "R (ex_decoded ! 1) = R (decode_sample ex_wire (Suc 1))"
    and "R (ex_decoded ! 2) = 0 \<and> G (ex_decoded ! 2) = 0 \<and> B (ex_decoded ! 2) = 0 \<and>
         Focus (ex_decoded ! 2) = 0"
    by simp_all
  with ex_parse0 g wl len show ?thesis by simp
qed

text \<open>
  Claim C5. Device identification returns the third octet of the destination address when
  the first two octets are 239 and 255, and -1 otherwise (also when the datagram carries
  no destination address). 239.255.5.12 gives device 5 and 10.0.0.1 gives -1.
\<close>

theorem ExtractDeviceID_multicast:
  "(s_b1 a = 239 \<and> s_b2 a = 255 \<longrightarrow> ExtractDeviceID (Some a) = uint (s_b3 a)) \<and>
   (\<not> (s_b1 a = 239 \<and> s_b2 a = 255) \<longrightarrow> ExtractDeviceID (Some a) = - 1) \<and>
   ExtractDeviceID None = - 1 \<and>
   ExtractDeviceID (Some \<lparr>s_b1 = 239, s_b2 = 255, s_b3 = 5, s_b4 = 12\<rparr>) = 5 \<and>
   ExtractDeviceID (Some \<lparr>s_b1 = 10, s_b2 = 0, s_b3 = 0, s_b4 = 1\<rparr>) = - 1"
  by (auto simp add: ExtractDeviceID_def s_addr_is_zero_def Let_def)

text \<open>The statement at 239.255.7.30 and at 192.168.7.30.\<close>

theorem ExtractDeviceID_multicast_witness:
  "s_b1 \<lparr>s_b1 = 239, s_b2 = 255, s_b3 = 7, s_b4 = 30\<rparr> = 239 \<and>
   s_b2 \<lparr>s_b1 = 239, s_b2 = 255, s_b3 = 7, s_b4 = 30\<rparr> = 255 \<and>
   ExtractDeviceID (Some \<lparr>s_b1 = 239, s_b2 = 255, s_b3 = 7, s_b4 = 30\<rparr>) = 7 \<and>
   \<not> (s_b1 \<lparr>s_b1 = 192, s_b2 = 168, s_b3 = 7, s_b4 = 30\<rparr> = 239 \<and>
      s_b2 \<lparr>s_b1 = 192, s_b2 = 168, s_b3 = 7, s_b4 = 30\<rparr> = 255) \<and>
   ExtractDeviceID (Some \<lparr>s_b1 = 192, s_b2 = 168, s_b3 = 7, s_b4 = 30\<rparr>) = - 1"
  using ExtractDeviceID_multicast [of "\<lparr>s_b1 = 239, s_b2 = 255, s_b3 = 7, s_b4 = 30\<rparr>"]
        ExtractDeviceID_multicast [of "\<lparr>s_b1 = 192, s_b2 = 168, s_b3 = 7, s_b4 = 30\<rparr>"]
  by simp

text \<open>
  Claim C6. \<^verbatim>\<open>DownsamplePoints\<close> with factor 1 returns the list unchanged. With a factor
  \<open>k > 1\<close> and a list of length \<open>n\<close> the result has length \<open>\<lceil>n / k\<rceil>\<close>, its \<open>m\<close>-th
  element is the input's element at index \<open>m * k\<close> (an index inside the input), and for a
  non-empty input it is non-empty and starts with the input's element at index 0.
\<close>

theorem DownsamplePoints_every_kth:
  "DownsamplePoints points 1 = points \<and>
   (1 < factor \<longrightarrow>
      int (length (DownsamplePoints points factor)) = \<lceil>real (length points) / real_of_int factor\<rceil> \<and>
      (\<forall>m < length (DownsamplePoints points factor).
          m * nat factor < length points \<and>
          DownsamplePoints points factor ! m = points ! (m * nat factor)) \<and>
      (points \<noteq> [] \<longrightarrow> DownsamplePoints points factor \<noteq> [] \<and>
          hd (DownsamplePoints points factor) = points ! 0))"
proof (intro conjI impI)
  show "DownsamplePoints points 1 = points"
    by (simp add: DownsamplePoints_def)
next
  assume f: "1 < factor"
  let ?k = "nat factor"
  let ?u = "(length points + ?k - 1) div ?k"
  from f have kpos: "0 < ?k" by simp
  have closed: "DownsamplePoints points factor = map (\<lambda>m. points ! (m * ?k)) [0..<?u]"
    using f by (rule DownsamplePoints_closed)
  then have len: "length (DownsamplePoints points factor) = ?u" by simp
  have "int ?u = \<lceil>real (length points) / real ?k\<rceil>"
    using kpos by (rule ceil_div)
  moreover from f have "real ?k = real_of_int factor" by simp
  ultimately show "int (length (DownsamplePoints points factor)) =
                   \<lceil>real (length points) / real_of_int factor\<rceil>"
    using len by simp
  show "\<forall>m < length (DownsamplePoints points factor).
          m * ?k < length points \<and> DownsamplePoints points factor ! m = points ! (m * ?k)"
  proof (intro allI impI)
    fix m assume "m < length (DownsamplePoints points factor)"
    then have m: "m < ?u" using len by simp
    then have "m + 1 \<le> ?u" by simp
    then have "(m + 1) * ?k \<le> length points + ?k - 1"
      using kpos by (simp add: less_eq_div_iff_mult_less_eq)
    then have "m * ?k < length points" using kpos by (simp add: algebra_simps)
    moreover have "DownsamplePoints points factor ! m = points ! (m * ?k)"
      using m by (simp add: closed)
    ultimately show "m * ?k < length points \<and>
                     DownsamplePoints points factor ! m = points ! (m * ?k)" ..
  qed
  show "DownsamplePoints points factor \<noteq> []" if "points \<noteq> []"
  proof -
    from that kpos have "1 * ?k \<le> length points + ?k - 1" by (cases points) simp_all
    then have "1 \<le> ?u" using kpos by (simp only: less_eq_div_iff_mult_less_eq)
    with len show ?thesis by auto
  qed
  show "hd (DownsamplePoints points factor) = points ! 0" if "points \<noteq> []"
  proof -
    from that kpos have "1 * ?k \<le> length points + ?k - 1" by (cases points) simp_all
    then have "1 \<le> ?u" using kpos by (simp only: less_eq_div_iff_mult_less_eq)
    then have "[0..<?u] = 0 # [1..<?u]" by (simp add: upt_conv_Cons)
    then show ?thesis by (simp add: closed)
  qed
qed

text \<open>The statement at factor 2 on a list of five points: indices 0, 2 and 4 are kept.\<close>

theorem DownsamplePoints_every_kth_witness:
  "(1::int) < 2 \<and> [ex_p, ex_q, ex_p, ex_q, ex_q] \<noteq> [] \<and>
   DownsamplePoints [ex_p, ex_q, ex_p, ex_q, ex_q] 2 = [ex_p, ex_p, ex_q] \<and>
   int (length (DownsamplePoints [ex_p, ex_q, ex_p, ex_q, ex_q] 2)) = \<lceil>real 5 / real_of_int 2\<rceil> \<and>
   hd (DownsamplePoints [ex_p, ex_q, ex_p, ex_q, ex_q] 2) = ex_p"
proof -
  have e: "DownsamplePoints [ex_p, ex_q, ex_p, ex_q, ex_q] 2 = [ex_p, ex_p, ex_q]"
    by (simp add: DownsamplePoints_def ds_loop.simps)
  from DownsamplePoints_every_kth [of "[ex_p, ex_q, ex_p, ex_q, ex_q]" 2] e
  show ?thesis by simp
qed

text \<open>
  Claim C7. \<^verbatim>\<open>RemoveDuplicatePoints\<close> returns a list that is not longer than its input,
  that starts with the input's first point when the input is non-empty, and in which no
  point is at the same position (\<^verbatim>\<open>IsSamePosition\<close>, whatever it implements) as the point
  before it.
\<close>

theorem RemoveDuplicatePoints_props:
  "length (RemoveDuplicatePoints same points) \<le> length points \<and>
   (points \<noteq> [] \<longrightarrow> RemoveDuplicatePoints same points \<noteq> [] \<and>
      hd (RemoveDuplicatePoints same points) = hd points) \<and>
   (\<forall>i. Suc i < length (RemoveDuplicatePoints same points) \<longrightarrow>
      \<not> same (RemoveDuplicatePoints same points ! Suc i) (RemoveDuplicatePoints same points ! i))"
proof (cases "points = []")
  case True
  then show ?thesis by (simp add: RemoveDuplicatePoints_def)
next
  case False
  then have r: "RemoveDuplicatePoints same points = rd_loop same (tl points) [hd points]"
    by (simp add: RemoveDuplicatePoints_def)
  have "length (rd_loop same (tl points) [hd points]) \<le> length [hd points] + length (tl points)"
    by (rule rd_loop_length)
  with False have a: "length (RemoveDuplicatePoints same points) \<le> length points"
    by (simp add: r)
  have b: "hd (RemoveDuplicatePoints same points) = hd points"
    by (simp add: r rd_loop_hd)
  have ne: "RemoveDuplicatePoints same points \<noteq> []"
    by (simp add: r rd_loop_ne)
  have "successively (\<lambda>a b. \<not> same b a) (RemoveDuplicatePoints same points)"
    unfolding r by (rule rd_loop_successively) simp_all
  then have c: "\<forall>i. Suc i < length (RemoveDuplicatePoints same points) \<longrightarrow>
      \<not> same (RemoveDuplicatePoints same points ! Suc i) (RemoveDuplicatePoints same points ! i)"
    by (auto dest: successively_nth)
  from a b c ne show ?thesis by simp
qed

text \<open>The statement on a list of five points with two adjacent duplicates.\<close>

theorem RemoveDuplicatePoints_props_witness:
  "[ex_p, ex_p, ex_q, ex_q, ex_p] \<noteq> [] \<and>
   RemoveDuplicatePoints IsSamePosition [ex_p, ex_p, ex_q, ex_q, ex_p] = [ex_p, ex_q, ex_p] \<and>
   Suc 0 < length (RemoveDuplicatePoints IsSamePosition [ex_p, ex_p, ex_q, ex_q, ex_p]) \<and>
   \<not> IsSamePosition (RemoveDuplicatePoints IsSamePosition [ex_p, ex_p, ex_q, ex_q, ex_p] ! Suc 0)
                     (RemoveDuplicatePoints IsSamePosition [ex_p, ex_p, ex_q, ex_q, ex_p] ! 0) \<and>
   hd (RemoveDuplicatePoints IsSamePosition [ex_p, ex_p, ex_q, ex_q, ex_p]) = ex_p"
proof -
  have e: "RemoveDuplicatePoints IsSamePosition [ex_p, ex_p, ex_q, ex_q, ex_p] = [ex_p, ex_q, ex_p]"
    by (simp add: RemoveDuplicatePoints_def IsSamePosition_def ex_p_def ex_q_def)
  from RemoveDuplicatePoints_props [of IsSamePosition "[ex_p, ex_p, ex_q, ex_q, ex_p]"] e
  show ?thesis by (simp add: IsSamePosition_def ex_p_def ex_q_def)
qed

text \<open>
  Claim C8. With a raw list of exactly one point, \<^verbatim>\<open>UpdatePointList\<close> returns, for every
  settings record, every quality level, with the simulation flag and the beam-brush flag
  on or off, and it sets the processed list and the beam list to that one point (the
  hot-beam list is empty and the raw list is as before).
\<close>

theorem UpdatePointList_single_point:
  "m_RawPoints src = [p] \<longrightarrow>
     (\<exists>src'. UpdatePointList same blank src enableScannerSim = Some src' \<and>
        m_ProcessedPoints src' = [p] \<and> m_BeamPoints src' = [p] \<and>
        m_HotBeamPoints src' = [] \<and> m_RawPoints src' = [p])"
  by (simp add: UpdatePointList_def GenerateHotBeams_def RemoveDuplicatePoints_def)

text \<open>The statement on a source with beam brush on, ticked with the simulation on.\<close>

theorem UpdatePointList_single_point_witness:
  "m_RawPoints (ex_source [ex_p]) = [ex_p] \<and>
   (\<exists>src'. UpdatePointList IsSamePosition IsBlankPoint (ex_source [ex_p]) True = Some src' \<and>
      m_ProcessedPoints src' = [ex_p] \<and> m_BeamPoints src' = [ex_p])"
proof -
  have r: "m_RawPoints (ex_source [ex_p]) = [ex_p]" by (simp add: ex_source_def)
  with UpdatePointList_single_point [of "ex_source [ex_p]" ex_p IsSamePosition IsBlankPoint True]
  show ?thesis by blast
qed

text \<open>
  Claim C9. Whatever \<^verbatim>\<open>m_MaxDevices\<close> is, the data callback is invoked only with a device
  ID between 0 and 3, which is the index extracted from the destination address; a packet
  whose extracted index is negative or at least 4 does not reach the callback.
\<close>

theorem callback_device_range:
  "(ReceiveThread_packet proto pktInfo bytesReceived = Some (deviceID, points) \<longrightarrow>
      0 \<le> deviceID \<and> deviceID \<le> 3 \<and> deviceID = ExtractDeviceID pktInfo) \<and>
   (ExtractDeviceID pktInfo < 0 \<or> 4 \<le> ExtractDeviceID pktInfo \<longrightarrow>
      ReceiveThread_packet proto pktInfo bytesReceived = None)"
proof (rule conjI; rule impI)
  assume "ReceiveThread_packet proto pktInfo bytesReceived = Some (deviceID, points)"
  then have "ParsePacket proto bytesReceived (ExtractDeviceID pktInfo) = Some (deviceID, points)"
    by (auto simp add: ReceiveThread_packet_def Let_def split: option.splits if_splits)
  then have "deviceID = ExtractDeviceID pktInfo \<and> 0 \<le> ExtractDeviceID pktInfo \<and>
             ExtractDeviceID pktInfo < 4"
    by (rule ParsePacket_range)
  then show "0 \<le> deviceID \<and> deviceID \<le> 3 \<and> deviceID = ExtractDeviceID pktInfo" by simp
next
  assume "ExtractDeviceID pktInfo < 0 \<or> 4 \<le> ExtractDeviceID pktInfo"
  then have "ParsePacket proto bytesReceived (ExtractDeviceID pktInfo) = None"
    by (rule ParsePacket_outside)
  then show "ReceiveThread_packet proto pktInfo bytesReceived = None"
    by (simp add: ReceiveThread_packet_def)
qed

text \<open>
  The statement with \<^verbatim>\<open>m_MaxDevices = 9\<close>: a packet for 239.255.5.12 is dropped, a packet
  for 239.255.2.12 reaches the callback as device 2.
\<close>

theorem callback_device_range_witness:
  "m_MaxDevices (ex_proto ex_wire 3) = 9 \<and>
   ExtractDeviceID (Some \<lparr>s_b1 = 239, s_b2 = 255, s_b3 = 5, s_b4 = 12\<rparr>) = 5 \<and>
   ReceiveThread_packet (ex_proto ex_wire 3)
     (Some \<lparr>s_b1 = 239, s_b2 = 255, s_b3 = 5, s_b4 = 12\<rparr>) 100 = None \<and>
   ReceiveThread_packet (ex_proto ex_wire 3)
     (Some \<lparr>s_b1 = 239, s_b2 = 255, s_b3 = 2, s_b4 = 12\<rparr>) 100 =
     Some (2, pp_loop ex_wire 3 0 []) \<and>
   (0::int) \<le> 2 \<and> (2::int) \<le> 3"
proof -
  have m: "m_MaxDevices (ex_proto ex_wire 3) = 9" by (simp add: ex_proto_def)
  have "ReceiveThread_packet (ex_proto ex_wire 3)
     (Some \<lparr>s_b1 = 239, s_b2 = 255, s_b3 = 5, s_b4 = 12\<rparr>) 100 = None"
    using callback_device_range [of "ex_proto ex_wire 3"
         "Some \<lparr>s_b1 = 239, s_b2 = 255, s_b3 = 5, s_b4 = 12\<rparr>" 100] ex_device5
    by simp
  moreover have "(0::int) \<le> 2 \<and> (2::int) \<le> 3"
    using callback_device_range [of "ex_proto ex_wire 3"
         "Some \<lparr>s_b1 = 239, s_b2 = 255, s_b3 = 2, s_b4 = 12\<rparr>" 100 2 "pp_loop ex_wire 3 0 []"]
       ex_receive2 by simp
  ultimately show ?thesis using m ex_device5 ex_receive2 by simp
qed

text \<open>
  Claim C10. A tick leaves the raw list as it was: whenever \<^verbatim>\<open>UpdatePointList\<close> returns,
  the raw list is unchanged and a further tick, with any simulation flag, computes what
  it would have computed on the source before the tick. It returns for every source whose
  \<^verbatim>\<open>BeamRepeatThreshold\<close> is not negative (with a negative threshold the program can read
  \<^verbatim>\<open>back()\<close> of an empty vector). \<^verbatim>\<open>SetPointList\<close> replaces the raw list by its argument.
\<close>

theorem UpdatePointList_keeps_raw:
  "(UpdatePointList same blank src en = Some src' \<longrightarrow>
      m_RawPoints src' = m_RawPoints src \<and>
      (\<forall>en'. UpdatePointList same blank src' en' = UpdatePointList same blank src en')) \<and>
   (0 \<le> BeamRepeatThreshold (m_Settings src) \<longrightarrow>
      (\<exists>next. UpdatePointList same blank src en = Some next)) \<and>
   m_RawPoints (SetPointList points src) = points"
proof (intro conjI impI allI)
  assume u: "UpdatePointList same blank src en = Some src'"
  then show "m_RawPoints src' = m_RawPoints src"
    by (simp add: UpdatePointList_frame)
  fix en'
  from u have "src' = src\<lparr>m_ProcessedPoints := m_ProcessedPoints src',
                             m_BeamPoints := m_BeamPoints src',
                             m_HotBeamPoints := m_HotBeamPoints src'\<rparr>"
    by (rule UpdatePointList_writes)
  then have "UpdatePointList same blank src' en' =
             UpdatePointList same blank
               (src\<lparr>m_ProcessedPoints := m_ProcessedPoints src',
                     m_BeamPoints := m_BeamPoints src',
                     m_HotBeamPoints := m_HotBeamPoints src'\<rparr>) en'"
    by simp
  then show "UpdatePointList same blank src' en' = UpdatePointList same blank src en'"
    by (simp only: UpdatePointList_outputs_only)
next
  assume "0 \<le> BeamRepeatThreshold (m_Settings src)"
  then show "\<exists>next. UpdatePointList same blank src en = Some next"
    by (rule UpdatePointList_defined)
next
  show "m_RawPoints (SetPointList points src) = points"
    by (simp add: SetPointList_def)
qed

text \<open>
  The statement on a source of four raw points: the tick returns, keeps the raw list, and
  the next tick returns the same source again.
\<close>

theorem UpdatePointList_keeps_raw_witness:
  "0 \<le> BeamRepeatThreshold (m_Settings (ex_source [ex_p, ex_p, ex_p, ex_q])) \<and>
   (\<exists>next. UpdatePointList IsSamePosition IsBlankPoint
             (ex_source [ex_p, ex_p, ex_p, ex_q]) False = Some next \<and>
           m_RawPoints next = [ex_p, ex_p, ex_p, ex_q] \<and>
           UpdatePointList IsSamePosition IsBlankPoint next False = Some next)"
proof -
  let ?src = "ex_source [ex_p, ex_p, ex_p, ex_q]"
  have T: "0 \<le> BeamRepeatThreshold (m_Settings ?src)"
    by (simp add: ex_source_def ex_settings_def)
  have raw: "m_RawPoints ?src = [ex_p, ex_p, ex_p, ex_q]"
    by (simp add: ex_source_def)
  from T UpdatePointList_keeps_raw [of IsSamePosition IsBlankPoint ?src False]
  obtain "next" where n: "UpdatePointList IsSamePosition IsBlankPoint ?src False = Some next"
    by blast
  with UpdatePointList_keeps_raw [of IsSamePosition IsBlankPoint ?src False "next"]
  have "m_RawPoints next = m_RawPoints ?src"
    and "UpdatePointList IsSamePosition IsBlankPoint next False =
         UpdatePointList IsSamePosition IsBlankPoint ?src False"
    by simp_all
  with n raw T show ?thesis by simp
qed

end
